theory Spec2Isabelle
  imports Main "HOL-Library.Sublist"
begin

section \<open>JavaScript values, promises and child processes\<close>

text \<open>
  The development embeds \<^verbatim>\<open>src/cli/handlers.ts\<close>. Everything the handlers reach
  outside their own file (\<^verbatim>\<open>child_process.spawn\<close>, \<^verbatim>\<open>fs.readFile\<close>, \<^verbatim>\<open>toml.parse\<close>,
  \<^verbatim>\<open>path.join\<close>, \<^verbatim>\<open>enhanceIdl\<close>, \<^verbatim>\<open>generateTypeScriptSDK\<close>, \<^verbatim>\<open>rustbinMatch\<close>) is a field
  of the record \<open>world\<close>, so every theorem holds for every behaviour of these
  collaborators. What the handlers do to the outside (spawning, logging, writing to the
  standard streams, calling the collaborators) is recorded in a list of actions.
\<close>

text \<open>An \<^verbatim>\<open>Error\<close> object, with the two properties the handlers read or write.\<close>

record js_error =
  name :: string
  message :: string

text \<open>
  A value that is thrown or that rejects a promise: the probe rejects with plain strings
  (\<^verbatim>\<open>reject('Anchor is not installed!')\<close>) and with \<^verbatim>\<open>Error\<close> objects.
\<close>

datatype js_value = JStr string | JErr js_error

text \<open>\<^verbatim>\<open>new Error(msg)\<close>\<close>

definition Error_new :: "string \<Rightarrow> js_error" where
  "Error_new msg = \<lparr>name = ''Error'', message = msg\<rparr>"

text \<open>
  The state of a promise. \<^verbatim>\<open>resolve\<close> and \<^verbatim>\<open>reject\<close> settle a pending promise and
  do nothing to a settled one.
\<close>

datatype 'a promise = Pending | Resolved 'a | Rejected js_value

definition resolve :: "'a \<Rightarrow> 'a promise \<Rightarrow> 'a promise" where
  "resolve v p = (case p of Pending \<Rightarrow> Resolved v | _ \<Rightarrow> p)"

definition reject :: "js_value \<Rightarrow> 'a promise \<Rightarrow> 'a promise" where
  "reject e p = (case p of Pending \<Rightarrow> Rejected e | _ \<Rightarrow> p)"

text \<open>
  The events of a \<^verbatim>\<open>ChildProcess\<close> and of its two output streams, in the order in
  which they are emitted. \<^verbatim>\<open>exit\<close> and \<^verbatim>\<open>close\<close> carry the exit code (\<^verbatim>\<open>null\<close> when the
  child was killed by a signal) and the signal.
\<close>

datatype child_event =
    ChildError js_error
  | ChildExit "int option" "string option"
  | ChildClose "int option" "string option"
  | StdoutData string
  | StderrData string

record spawn_opts =
  cwd :: "string option"
  stdio :: "string option"

text \<open>\<^verbatim>\<open>spawn\<close> either throws at once or returns a child that emits events.\<close>

datatype spawn_result = SpawnThrows js_value | Child "child_event list"

section \<open>Configuration and manifest\<close>

datatype idl = Idl string

datatype prettier_options = PrettierOptions string

text \<open>
  \<^verbatim>\<open>SolitaConfigAnchor\<close> and \<^verbatim>\<open>SolitaConfigShank\<close> are declared in \<^verbatim>\<open>./types\<close>; the
  record has the fields that \<^verbatim>\<open>handlers.ts\<close> reads.
\<close>

record solita_config =
  programName :: string
  idlDir :: string
  sdkDir :: string
  binaryInstallDir :: string
  programDir :: string
  typeAliases :: "(string \<times> string) list option"
  serializers :: "(string \<times> string) list option"
  anchorRemainingAccounts :: "bool option"

text \<open>Values of a parsed TOML document, for the fields the handlers never read.\<close>

datatype toml_value =
    TString string
  | TInteger int
  | TBoolean bool
  | TArray "toml_value list"
  | TTable "(string \<times> toml_value) list"

text \<open>
  \<^verbatim>\<open>type CargoToml = { dependencies: Record<string, string | { version: string }> }\<close>.
  An object of type \<^verbatim>\<open>{ version: string }\<close> may have any further properties.
  A key that is absent from the record is \<open>None\<close>. The type is only asserted of what
  \<^verbatim>\<open>parse\<close> returns: a manifest without a \<^verbatim>\<open>[dependencies]\<close> table parses to an object
  without the property \<^verbatim>\<open>dependencies\<close>, which is \<open>dependencies = None\<close>.
\<close>

record dep_table =
  version :: string
  other_fields :: "(string \<times> toml_value) list"

datatype dep_value = DepString string | DepTable dep_table

record CargoToml =
  dependencies :: "(string \<Rightarrow> dep_value option) option"

text \<open>The types of \<^verbatim>\<open>@metaplex-foundation/rustbin\<close> that the handlers use.\<close>

record rustbin_config =
  rootDir :: string
  binaryName :: string
  binaryCrateName :: string
  libName :: string
  cargoToml :: string
  dryRun :: bool

record rustbin_match_return =
  fullPathToBinary :: string
  binVersion :: "string option"
  libVersion :: string

record confirm_install_args =
  arg_binaryName :: string
  arg_libVersion :: string
  arg_libName :: string
  arg_binVersion :: "string option"
  arg_fullPathToBinary :: string

section \<open>The collaborators and the actions\<close>

text \<open>
  \<open>rustbinMatch\<close> returns the arguments with which it called the confirmation callback
  it was given, and the promise of its result. \<open>undefinedReadMessage k\<close> is the message of
  the \<^verbatim>\<open>TypeError\<close> that the engine throws when the property \<open>k\<close> of \<^verbatim>\<open>undefined\<close> is read.
\<close>

record world =
  spawn :: "string \<Rightarrow> string list \<Rightarrow> spawn_opts \<Rightarrow> spawn_result"
  readFile :: "string \<Rightarrow> string promise"
  parse :: "string \<Rightarrow> js_value + CargoToml"
  path_join :: "string \<Rightarrow> string \<Rightarrow> string"
  enhanceIdl :: "solita_config \<Rightarrow> string \<Rightarrow> string \<Rightarrow> idl promise"
  generateTypeScriptSDK ::
    "idl \<Rightarrow> string \<Rightarrow> prettier_options option \<Rightarrow> (string \<times> string) list option \<Rightarrow>
     (string \<times> string) list option \<Rightarrow> bool option \<Rightarrow> unit promise"
  rustbinMatch :: "rustbin_config \<Rightarrow> confirm_install_args list \<times> rustbin_match_return promise"
  undefinedReadMessage :: "string \<Rightarrow> string"

text \<open>
  \<open>UnhandledRejection e\<close>: the promise of an \<^verbatim>\<open>async\<close> event listener was rejected with
  \<open>e\<close>; the event emitter drops that promise, so nothing handles the rejection.
\<close>

datatype action =
    Spawn string "string list" spawn_opts
  | LogError string "js_value list"
  | LogInfo string "js_value list"
  | WriteStdout string
  | WriteStderr string
  | CallEnhanceIdl solita_config string string
  | CallGenerateTypeScriptSDK idl string "prettier_options option"
      "(string \<times> string) list option" "(string \<times> string) list option" "bool option"
  | UnhandledRejection js_value

fun is_Spawn :: "action \<Rightarrow> bool" where
  "is_Spawn (Spawn c a opts) = True"
| "is_Spawn _ = False"

fun is_CallEnhanceIdl :: "action \<Rightarrow> bool" where
  "is_CallEnhanceIdl (CallEnhanceIdl c b l) = True"
| "is_CallEnhanceIdl _ = False"

fun is_CallGenerate :: "action \<Rightarrow> bool" where
  "is_CallGenerate (CallGenerateTypeScriptSDK i d p t s r) = True"
| "is_CallGenerate _ = False"

definition is_Call :: "action \<Rightarrow> bool" where
  "is_Call a = (is_CallEnhanceIdl a \<or> is_CallGenerate a)"

section \<open>Strings\<close>

text \<open>\<^verbatim>\<open>s.includes(sub)\<close>\<close>

definition str_includes :: "string \<Rightarrow> string \<Rightarrow> bool" where
  "str_includes s sub = sublist sub s"

text \<open>The decimal digits of a natural number, and a number or \<^verbatim>\<open>null\<close> in a template string.\<close>

function string_of_nat :: "nat \<Rightarrow> string" where
  "string_of_nat n =
     (if n < 10 then [''0123456789'' ! n]
      else string_of_nat (n div 10) @ [''0123456789'' ! (n mod 10)])"
  by pat_completeness auto
termination
  by (relation "measure id") auto

definition string_of_int :: "int \<Rightarrow> string" where
  "string_of_int i = (if i < 0 then ''-'' @ string_of_nat (nat (- i)) else string_of_nat (nat i))"

definition string_of_code :: "int option \<Rightarrow> string" where
  "string_of_code code = (case code of None \<Rightarrow> ''null'' | Some i \<Rightarrow> string_of_int i)"

section \<open>The version pattern\<close>

text \<open>
  \<^verbatim>\<open>stdoutData.match(/anchor-cli (\d+\.\d+\.\d+)/)\<close>: the leftmost match, each \<^verbatim>\<open>\d+\<close>
  greedy. \<open>matchVersion\<close> is \<open>None\<close> when \<^verbatim>\<open>match\<close> returns \<^verbatim>\<open>null\<close> and otherwise
  \<^verbatim>\<open>match[1]\<close>. A digit is never a dot, so a \<^verbatim>\<open>\d+\<close> that is followed by a dot in the pattern
  matches exactly the longest run of digits.
\<close>

definition isDigit :: "char \<Rightarrow> bool" where
  "isDigit c = (c \<in> set ''0123456789'')"

text \<open>\<^verbatim>\<open>\d+\<close> at the start of \<open>s\<close>: the digits matched and the rest.\<close>

definition digits1 :: "string \<Rightarrow> (string \<times> string) option" where
  "digits1 s =
     (let d = takeWhile isDigit s
      in if d = [] then None else Some (d, dropWhile isDigit s))"

text \<open>A literal dot at the start of \<open>s\<close>: the rest.\<close>

fun dot :: "string \<Rightarrow> string option" where
  "dot [] = None"
| "dot (c # cs) = (if c = CHR ''.'' then Some cs else None)"

text \<open>\<^verbatim>\<open>(\d+\.\d+\.\d+)\<close> at the start of \<open>s\<close>: the text of the group.\<close>

definition semverAt :: "string \<Rightarrow> string option" where
  "semverAt s =
     (case digits1 s of None \<Rightarrow> None | Some (d1, r1) \<Rightarrow>
      (case dot r1 of None \<Rightarrow> None | Some r1' \<Rightarrow>
       (case digits1 r1' of None \<Rightarrow> None | Some (d2, r2) \<Rightarrow>
        (case dot r2 of None \<Rightarrow> None | Some r2' \<Rightarrow>
         (case digits1 r2' of None \<Rightarrow> None | Some (d3, r3) \<Rightarrow>
            Some (d1 @ ''.'' @ d2 @ ''.'' @ d3))))))"

text \<open>The whole pattern at the start of \<open>s\<close>.\<close>

definition matchAt :: "string \<Rightarrow> string option" where
  "matchAt s =
     (if prefix ''anchor-cli '' s then semverAt (drop (length ''anchor-cli '') s) else None)"

text \<open>The pattern at the first position of \<open>s\<close> where it matches.\<close>

fun matchVersion :: "string \<Rightarrow> string option" where
  "matchVersion [] = None"
| "matchVersion (c # cs) =
     (case matchAt (c # cs) of Some v \<Rightarrow> Some v | None \<Rightarrow> matchVersion cs)"

text \<open>
  The language of the pattern, stated without an algorithm: \<open>semver v\<close> when \<open>v\<close>
  is three non-empty runs of digits separated by dots, and \<open>containsVersion s\<close> when
  some substring of \<open>s\<close> matches the pattern.
\<close>

definition digitRun :: "string \<Rightarrow> bool" where
  "digitRun d = (d \<noteq> [] \<and> list_all isDigit d)"

definition semver :: "string \<Rightarrow> bool" where
  "semver v = (\<exists>d1 d2 d3. digitRun d1 \<and> digitRun d2 \<and> digitRun d3 \<and>
                 v = d1 @ ''.'' @ d2 @ ''.'' @ d3)"

definition containsVersion :: "string \<Rightarrow> bool" where
  "containsVersion s = (\<exists>pre v post. semver v \<and> s = pre @ ''anchor-cli '' @ v @ post)"

text \<open>
  \<open>matchesAt s v\<close>: the pattern matches at the start of \<open>s\<close> and its group is \<open>v\<close>, the
  last run of digits taken as far as it goes. \<open>firstMatch s v\<close>: the leftmost position of
  \<open>s\<close> where the pattern matches gives the group \<open>v\<close>.
\<close>

definition matchesAt :: "string \<Rightarrow> string \<Rightarrow> bool" where
  "matchesAt s v =
     (semver v \<and> (\<exists>post. s = ''anchor-cli '' @ v @ post \<and> takeWhile isDigit post = []))"

definition firstMatch :: "string \<Rightarrow> string \<Rightarrow> bool" where
  "firstMatch s v =
     (\<exists>pre rest. s = pre @ rest \<and> matchesAt rest v \<and>
        (\<forall>k<length pre. \<not> (\<exists>v'. matchesAt (drop k s) v')))"

section \<open>The version probe\<close>

text \<open>
  The listeners that \<open>getAnchorCommandVersion\<close> attaches to the child, as one step on
  the pair of \<^verbatim>\<open>stdoutData\<close> and the promise. The child's \<^verbatim>\<open>exit\<close> event and its
  standard error have no listener.
\<close>

fun probeOn :: "string \<times> string promise \<Rightarrow> child_event \<Rightarrow> string \<times> string promise" where
  "probeOn (stdoutData, p) (StdoutData d) = (stdoutData @ d, p)"
| "probeOn (stdoutData, p) (ChildError error) =
     (if name error = ''Error'' \<and> str_includes (message error) ''ENOENT''
      then (stdoutData, reject (JStr ''Anchor is not installed!'') p)
      else (stdoutData, reject (JErr error) p))"
| "probeOn (stdoutData, p) (ChildClose code signal) =
     (if code = Some 0
      then (case matchVersion stdoutData of
              None \<Rightarrow> (stdoutData, reject (JStr ''Anchor version matching failed'') p)
            | Some v \<Rightarrow> (stdoutData, resolve v p))
      else (stdoutData,
            reject (JErr (Error_new (''Process exited with code '' @ string_of_code code))) p))"
| "probeOn (stdoutData, p) (ChildExit code signal) = (stdoutData, p)"
| "probeOn (stdoutData, p) (StderrData d) = (stdoutData, p)"

definition probeSpawn :: action where
  "probeSpawn = Spawn ''anchor'' [''--version''] \<lparr>cwd = None, stdio = Some ''pipe''\<rparr>"

definition getAnchorCommandVersion :: "world \<Rightarrow> action list \<times> string promise" where
  "getAnchorCommandVersion w =
     (case spawn w ''anchor'' [''--version''] \<lparr>cwd = None, stdio = Some ''pipe''\<rparr> of
        SpawnThrows e \<Rightarrow> ([probeSpawn], Rejected e)
      | Child evs \<Rightarrow> ([probeSpawn], snd (foldl probeOn ('''', Pending) evs)))"

section \<open>The manifest\<close>

definition parseCargoToml :: "world \<Rightarrow> string \<Rightarrow> action list \<times> (CargoToml \<times> string) promise" where
  "parseCargoToml w fullPath =
     (case readFile w fullPath of
        Pending \<Rightarrow> ([], Pending)
      | Rejected err \<Rightarrow>
          ([LogError (''Failed to read Cargo.toml at '' @ [CHR 0x22] @ ''%s'' @ [CHR 0x22, CHR 0x0A])
              [JStr fullPath, err]],
           Rejected err)
      | Resolved toml \<Rightarrow>
          (case parse w toml of
             Inl err \<Rightarrow>
               ([LogError (''Failed to parse Cargo.toml:'' @ [CHR 0x0A] @ ''%s'' @ [CHR 0x0A] @ ''%s'')
                   [JStr toml, err]],
                Rejected err)
           | Inr parsed \<Rightarrow> ([], Resolved (parsed, toml))))"

text \<open>
  \<open>manifestPath\<close> is the parameter \<^verbatim>\<open>cargoToml\<close> and \<open>entry\<close> the local
  \<^verbatim>\<open>libVersion\<close> of the source (both names are fields of the rustbin records here).
  \<^verbatim>\<open>parsed.dependencies['anchor-lang']\<close> throws a \<^verbatim>\<open>TypeError\<close> when
  \<^verbatim>\<open>parsed.dependencies\<close> is \<^verbatim>\<open>undefined\<close>, before the test for \<^verbatim>\<open>null\<close>.
\<close>

definition getAnchorVersionInToml :: "world \<Rightarrow> string \<Rightarrow> action list \<times> string promise" where
  "getAnchorVersionInToml w manifestPath =
     (case parseCargoToml w manifestPath of
        (t, Pending) \<Rightarrow> (t, Pending)
      | (t, Rejected err) \<Rightarrow> (t, Rejected err)
      | (t, Resolved (parsed, toml)) \<Rightarrow>
          (case dependencies parsed of
             None \<Rightarrow>
               (t, Rejected (JErr \<lparr>name = ''TypeError'',
                                    message = undefinedReadMessage w ''anchor-lang''\<rparr>))
           | Some deps \<Rightarrow>
               (case deps ''anchor-lang'' of
                  None \<Rightarrow>
                    (t, Rejected (JErr (Error_new
                          (''anchor_lang not found as dependency in '' @ manifestPath))))
                | Some entry \<Rightarrow>
                    (t, Resolved (case entry of DepString s \<Rightarrow> s
                                  | DepTable tbl \<Rightarrow> version tbl)))))"

section \<open>The orchestrators\<close>

text \<open>
  The \<^verbatim>\<open>exit\<close> listener is an \<^verbatim>\<open>async\<close> function. It logs and calls \<open>enhanceIdl\<close>
  when the event is emitted, and goes on when the awaited promise is fulfilled; a
  rejected \<^verbatim>\<open>await\<close> rejects the listener's own promise, which nobody holds. The step
  below runs the listener to its end before the next event of the child is taken.
\<close>

definition anchorOnExit ::
  "world \<Rightarrow> solita_config \<Rightarrow> prettier_options option \<Rightarrow> string \<Rightarrow> string \<Rightarrow>
   action list \<times> unit promise \<Rightarrow> action list \<times> unit promise" where
  "anchorOnExit w config prettierConfig anchorCliVersion cargoAnchorVersion st =
     (case st of (tr, p) \<Rightarrow>
      (let tr1 = tr @
             [LogInfo ''IDL written to: %s''
                [JStr (path_join w (idlDir config) (programName config @ ''.json''))],
              CallEnhanceIdl config anchorCliVersion cargoAnchorVersion]
       in case enhanceIdl w config anchorCliVersion cargoAnchorVersion of
            Pending \<Rightarrow> (tr1, p)
          | Rejected e \<Rightarrow> (tr1 @ [UnhandledRejection e], p)
          | Resolved i \<Rightarrow>
              (let tr2 = tr1 @
                     [CallGenerateTypeScriptSDK i (sdkDir config) prettierConfig
                        (typeAliases config) (serializers config)
                        (anchorRemainingAccounts config)]
               in case generateTypeScriptSDK w i (sdkDir config) prettierConfig
                         (typeAliases config) (serializers config)
                         (anchorRemainingAccounts config) of
                    Pending \<Rightarrow> (tr2, p)
                  | Rejected e \<Rightarrow> (tr2 @ [UnhandledRejection e], p)
                  | Resolved u \<Rightarrow> (tr2, resolve () p))))"

fun anchorOn ::
  "world \<Rightarrow> solita_config \<Rightarrow> prettier_options option \<Rightarrow> string \<Rightarrow> string \<Rightarrow>
   action list \<times> unit promise \<Rightarrow> child_event \<Rightarrow> action list \<times> unit promise" where
  "anchorOn w config prettierConfig cli lib (tr, p) (ChildError err) =
     (tr @ [LogError (programName config @ '' idl generation failed'') []], reject (JErr err) p)"
| "anchorOn w config prettierConfig cli lib (tr, p) (ChildExit code signal) =
     anchorOnExit w config prettierConfig cli lib (tr, p)"
| "anchorOn w config prettierConfig cli lib (tr, p) (StdoutData buf) = (tr @ [WriteStdout buf], p)"
| "anchorOn w config prettierConfig cli lib (tr, p) (StderrData buf) = (tr @ [WriteStderr buf], p)"
| "anchorOn w config prettierConfig cli lib (tr, p) (ChildClose code signal) = (tr, p)"

definition handleAnchor ::
  "world \<Rightarrow> solita_config \<Rightarrow> prettier_options option \<Rightarrow> action list \<times> unit promise" where
  "handleAnchor w config prettierConfig =
     (let spawnArgs = [''build'', ''--idl'', idlDir config];
          spawnOpts = \<lparr>cwd = Some (programDir config), stdio = None\<rparr>;
          manifestPath = path_join w (programDir config) ''Cargo.toml''
      in case getAnchorCommandVersion w of
           (t1, Pending) \<Rightarrow> (t1, Pending)
         | (t1, Rejected e) \<Rightarrow> (t1, Rejected e)
         | (t1, Resolved anchorCliVersion) \<Rightarrow>
             (case getAnchorVersionInToml w manifestPath of
                (t2, Pending) \<Rightarrow> (t1 @ t2, Pending)
              | (t2, Rejected e) \<Rightarrow> (t1 @ t2, Rejected e)
              | (t2, Resolved cargoAnchorVersion) \<Rightarrow>
                  if anchorCliVersion \<noteq> cargoAnchorVersion
                  then (t1 @ t2,
                        Rejected (JErr (Error_new
                          (''Anchor version mismatch! Selected anchor cli: '' @ anchorCliVersion @
                           '', in Cargo.toml: '' @ cargoAnchorVersion))))
                  else (case spawn w ''anchor'' spawnArgs spawnOpts of
                          SpawnThrows e \<Rightarrow>
                            (t1 @ t2 @ [Spawn ''anchor'' spawnArgs spawnOpts], Rejected e)
                        | Child evs \<Rightarrow>
                            foldl (anchorOn w config prettierConfig anchorCliVersion
                                     cargoAnchorVersion)
                              (t1 @ t2 @ [Spawn ''anchor'' spawnArgs spawnOpts], Pending) evs)))"

definition confirmAutoMessageLog :: "confirm_install_args \<Rightarrow> action list \<times> bool" where
  "confirmAutoMessageLog a =
     ((case arg_binVersion a of
         None \<Rightarrow> [LogInfo (''No existing version found for '' @ arg_binaryName a @ ''.'') []]
       | Some v \<Rightarrow> [LogInfo (''Version for '' @ arg_binaryName a @ '': '' @ v) []]) @
      [LogInfo (''Will install version matching '' @ [CHR 0x22] @ arg_libName a @ '': '' @
                [CHR 0x27] @ arg_libVersion a @ [CHR 0x27, CHR 0x22] @ '' to '' @
                arg_fullPathToBinary a) []],
      True)"

definition handleOnExit ::
  "world \<Rightarrow> solita_config \<Rightarrow> prettier_options option \<Rightarrow> bool option \<Rightarrow> string \<Rightarrow> string \<Rightarrow>
   action list \<times> unit promise \<Rightarrow> action list \<times> unit promise" where
  "handleOnExit w config prettierConfig remainingAccounts binV libV st =
     (case st of (tr, p) \<Rightarrow>
      (let tr1 = tr @
             [LogInfo ''IDL written to: %s''
                [JStr (path_join w (idlDir config) (programName config @ ''.json''))],
              CallEnhanceIdl config binV libV]
       in case enhanceIdl w config binV libV of
            Pending \<Rightarrow> (tr1, p)
          | Rejected e \<Rightarrow> (tr1 @ [UnhandledRejection e], p)
          | Resolved i \<Rightarrow>
              (let tr2 = tr1 @
                     [CallGenerateTypeScriptSDK i (sdkDir config) prettierConfig
                        (typeAliases config) (serializers config) remainingAccounts]
               in case generateTypeScriptSDK w i (sdkDir config) prettierConfig
                         (typeAliases config) (serializers config) remainingAccounts of
                    Pending \<Rightarrow> (tr2, p)
                  | Rejected e \<Rightarrow> (tr2 @ [UnhandledRejection e], p)
                  | Resolved u \<Rightarrow> (tr2, resolve () p))))"

fun handleOn ::
  "world \<Rightarrow> solita_config \<Rightarrow> prettier_options option \<Rightarrow> bool option \<Rightarrow> string \<Rightarrow> string \<Rightarrow>
   action list \<times> unit promise \<Rightarrow> child_event \<Rightarrow> action list \<times> unit promise" where
  "handleOn w config prettierConfig ra binV libV (tr, p) (ChildError err) =
     (tr @ [LogError (programName config @ '' idl generation failed'') []], reject (JErr err) p)"
| "handleOn w config prettierConfig ra binV libV (tr, p) (ChildExit code signal) =
     handleOnExit w config prettierConfig ra binV libV (tr, p)"
| "handleOn w config prettierConfig ra binV libV (tr, p) (StdoutData buf) =
     (tr @ [WriteStdout buf], p)"
| "handleOn w config prettierConfig ra binV libV (tr, p) (StderrData buf) =
     (tr @ [WriteStderr buf], p)"
| "handleOn w config prettierConfig ra binV libV (tr, p) (ChildClose code signal) = (tr, p)"

definition handle ::
  "world \<Rightarrow> solita_config \<Rightarrow> rustbin_config \<Rightarrow> string list \<Rightarrow> spawn_opts \<Rightarrow>
   prettier_options option \<Rightarrow> bool option \<Rightarrow> action list \<times> unit promise" where
  "handle w config rustbinConfig spawnArgs spawnOpts prettierConfig remainingAccounts =
     (case rustbinMatch w rustbinConfig of (confirms, r) \<Rightarrow>
      (let t0 = concat (map (\<lambda>a. fst (confirmAutoMessageLog a)) confirms)
       in case r of
            Pending \<Rightarrow> (t0, Pending)
          | Rejected e \<Rightarrow> (t0, Rejected e)
          | Resolved m \<Rightarrow>
              (case binVersion m of
                 None \<Rightarrow>
                   (t0, Rejected (JErr (Error_new
                      (''rustbin was unable to determine installed version '' @
                       binaryName rustbinConfig @ '', it may '' @
                       ''not have been installed correctly.''))))
               | Some binV \<Rightarrow>
                   (case spawn w (fullPathToBinary m) spawnArgs spawnOpts of
                      SpawnThrows e \<Rightarrow>
                        (t0 @ [Spawn (fullPathToBinary m) spawnArgs spawnOpts], Rejected e)
                    | Child evs \<Rightarrow>
                        foldl (handleOn w config prettierConfig remainingAccounts binV
                                 (libVersion m))
                          (t0 @ [Spawn (fullPathToBinary m) spawnArgs spawnOpts], Pending)
                          evs))))"

definition handleShank ::
  "world \<Rightarrow> solita_config \<Rightarrow> prettier_options option \<Rightarrow> action list \<times> unit promise" where
  "handleShank w config prettierConfig =
     (let spawnArgs = [''idl'', ''--out-dir'', idlDir config, ''--crate-root'', programDir config];
          spawnOpts = \<lparr>cwd = Some (programDir config), stdio = None\<rparr>;
          rustbinConfig = \<lparr>rootDir = binaryInstallDir config, binaryName = ''shank'',
                           binaryCrateName = ''shank-cli'', libName = ''shank'',
                           cargoToml = path_join w (programDir config) ''Cargo.toml'',
                           dryRun = False\<rparr>
      in handle w config rustbinConfig spawnArgs spawnOpts prettierConfig (Some False))"

section \<open>Runs of the child\<close>

fun is_ChildExit :: "child_event \<Rightarrow> bool" where
  "is_ChildExit (ChildExit c s) = True"
| "is_ChildExit _ = False"

fun is_ChildError :: "child_event \<Rightarrow> bool" where
  "is_ChildError (ChildError e) = True"
| "is_ChildError _ = False"

fun is_ChildClose :: "child_event \<Rightarrow> bool" where
  "is_ChildClose (ChildClose c s) = True"
| "is_ChildClose _ = False"

fun stdout_of :: "child_event list \<Rightarrow> string" where
  "stdout_of [] = []"
| "stdout_of (StdoutData d # evs) = d @ stdout_of evs"
| "stdout_of (e # evs) = stdout_of evs"

text \<open>The child of the version probe.\<close>

definition probeChild :: "world \<Rightarrow> spawn_result" where
  "probeChild w = spawn w ''anchor'' [''--version''] \<lparr>cwd = None, stdio = Some ''pipe''\<rparr>"

section \<open>Notions used in the statements\<close>

text \<open>
  The child that \<open>handleAnchor\<close> spawns, the action that records the spawn, and the
  path of the manifest it reads.
\<close>

definition anchorChild :: "world \<Rightarrow> solita_config \<Rightarrow> spawn_result" where
  "anchorChild w config =
     spawn w ''anchor'' [''build'', ''--idl'', idlDir config]
       \<lparr>cwd = Some (programDir config), stdio = None\<rparr>"

definition anchorSpawn :: "solita_config \<Rightarrow> action" where
  "anchorSpawn config =
     Spawn ''anchor'' [''build'', ''--idl'', idlDir config]
       \<lparr>cwd = Some (programDir config), stdio = None\<rparr>"

definition manifestOf :: "world \<Rightarrow> solita_config \<Rightarrow> string" where
  "manifestOf w config = path_join w (programDir config) ''Cargo.toml''"

text \<open>
  The calls to the two collaborators that one \<^verbatim>\<open>exit\<close> event makes.
\<close>

definition exitCalls ::
  "world \<Rightarrow> solita_config \<Rightarrow> prettier_options option \<Rightarrow> bool option \<Rightarrow> string \<Rightarrow> string \<Rightarrow>
   action list" where
  "exitCalls w config pc ra b l =
     (case enhanceIdl w config b l of
        Resolved i \<Rightarrow>
          [CallEnhanceIdl config b l,
           CallGenerateTypeScriptSDK i (sdkDir config) pc (typeAliases config)
             (serializers config) ra]
      | _ \<Rightarrow> [CallEnhanceIdl config b l])"

text \<open>
  \<open>enhanceIdl\<close> is rejected with \<open>e\<close>, or it is fulfilled and \<open>generateTypeScriptSDK\<close> is
  rejected with \<open>e\<close>.
\<close>

definition downstreamFails ::
  "world \<Rightarrow> solita_config \<Rightarrow> prettier_options option \<Rightarrow> bool option \<Rightarrow> string \<Rightarrow> string \<Rightarrow>
   js_value \<Rightarrow> bool" where
  "downstreamFails w config pc ra b l e =
     (case enhanceIdl w config b l of
        Pending \<Rightarrow> False
      | Rejected e' \<Rightarrow> e' = e
      | Resolved i \<Rightarrow>
          generateTypeScriptSDK w i (sdkDir config) pc (typeAliases config) (serializers config) ra
            = Rejected e)"

text \<open>
  The test of the probe's \<^verbatim>\<open>error\<close> listener, which Node's error for an executable that
  does not exist passes (its message is \<^verbatim>\<open>spawn <command> ENOENT\<close>), and the test by which a
  caller tells from a rejection that the executable is missing.
\<close>

definition isENOENT :: "js_error \<Rightarrow> bool" where
  "isENOENT error = (name error = ''Error'' \<and> str_includes (message error) ''ENOENT'')"

definition saysNotInstalled :: "js_value \<Rightarrow> bool" where
  "saysNotInstalled r =
     (case r of JStr s \<Rightarrow> s = ''Anchor is not installed!'' | JErr error \<Rightarrow> isENOENT error)"

text \<open>
  \<open>eraseCodesOf w cmd args opts\<close> is the world \<open>w\<close> in which the child spawned by
  \<open>cmd args opts\<close> emits the same events, except that every \<^verbatim>\<open>exit\<close> and \<^verbatim>\<open>close\<close> comes
  with code 0 and no signal, as after a run that succeeded.
\<close>

fun eraseCode :: "child_event \<Rightarrow> child_event" where
  "eraseCode (ChildExit code signal) = ChildExit (Some 0) None"
| "eraseCode (ChildClose code signal) = ChildClose (Some 0) None"
| "eraseCode ev = ev"

definition eraseCodesOf :: "world \<Rightarrow> string \<Rightarrow> string list \<Rightarrow> spawn_opts \<Rightarrow> world" where
  "eraseCodesOf w cmd args opts =
     w\<lparr>spawn := (\<lambda>c a opt.
          if c = cmd \<and> a = args \<and> opt = opts
          then (case spawn w c a opt of
                  SpawnThrows e \<Rightarrow> SpawnThrows e
                | Child evs \<Rightarrow> Child (map eraseCode evs))
          else spawn w c a opt)\<rparr>"

section \<open>Example inputs\<close>

text \<open>
  A configuration and a family of collaborators on which the theorems are run: the two
  children emit the given events, the manifest declares the given \<^verbatim>\<open>anchor-lang\<close> entry,
  and the three asynchronous collaborators return the given promises. \<open>workspaceManifest\<close>
  makes the manifest one without a \<^verbatim>\<open>[dependencies]\<close> table, such as the manifest of a
  workspace.
\<close>

definition exampleConfig :: solita_config where
  "exampleConfig =
     \<lparr>programName = ''prog'', idlDir = ''idl'', sdkDir = ''sdk'', binaryInstallDir = ''bin'',
      programDir = ''program'', typeAliases = None, serializers = None,
      anchorRemainingAccounts = None\<rparr>"

definition exampleWorld ::
  "child_event list \<Rightarrow> child_event list \<Rightarrow> dep_value option \<Rightarrow> idl promise \<Rightarrow> unit promise \<Rightarrow>
   rustbin_match_return promise \<Rightarrow> world" where
  "exampleWorld probeEvents idlEvents dep enh gen rb =
     \<lparr>spawn = (\<lambda>cmd args opts. if args = [''--version''] then Child probeEvents else Child idlEvents),
      readFile = (\<lambda>p. Resolved ''toml''),
      parse = (\<lambda>t. Inr \<lparr>dependencies = Some (\<lambda>k. if k = ''anchor-lang'' then dep else None)\<rparr>),
      path_join = (\<lambda>a b. a @ ''/'' @ b),
      enhanceIdl = (\<lambda>c b l. enh),
      generateTypeScriptSDK = (\<lambda>i d p t s r. gen),
      rustbinMatch = (\<lambda>rc. ([], rb)),
      undefinedReadMessage =
        (\<lambda>k. ''Cannot read properties of undefined (reading '' @ [CHR 0x27] @ k @ [CHR 0x27] @ '')'')\<rparr>"

definition workspaceManifest :: "world \<Rightarrow> world" where
  "workspaceManifest w = w\<lparr>parse := (\<lambda>t. Inr \<lparr>dependencies = None\<rparr>)\<rparr>"

text \<open>Example children, results and errors.\<close>

definition probeOk :: "child_event list" where
  "probeOk = [StdoutData ''anchor-cli 0.27.0'', ChildExit (Some 0) None, ChildClose (Some 0) None]"

definition idlExit1 :: "child_event list" where
  "idlExit1 = [StdoutData ''building'', ChildExit (Some 1) None, ChildClose (Some 1) None]"

definition shankMatch :: rustbin_match_return where
  "shankMatch = \<lparr>fullPathToBinary = ''bin/shank'', binVersion = Some ''0.4.2'',
                  libVersion = ''0.4.2''\<rparr>"

definition shankConfig :: "world \<Rightarrow> rustbin_config" where
  "shankConfig w =
     \<lparr>rootDir = binaryInstallDir exampleConfig, binaryName = ''shank'',
      binaryCrateName = ''shank-cli'', libName = ''shank'',
      cargoToml = path_join w (programDir exampleConfig) ''Cargo.toml'', dryRun = False\<rparr>"

definition shankArgs :: "string list" where
  "shankArgs = [''idl'', ''--out-dir'', idlDir exampleConfig, ''--crate-root'',
                programDir exampleConfig]"

definition shankOpts :: spawn_opts where
  "shankOpts = \<lparr>cwd = Some (programDir exampleConfig), stdio = None\<rparr>"

definition spawnENOENT :: js_error where
  "spawnENOENT = \<lparr>name = ''Error'', message = ''spawn anchor ENOENT''\<rparr>"

definition spawnEACCES :: js_error where
  "spawnEACCES = \<lparr>name = ''Error'', message = ''spawn anchor EACCES''\<rparr>"

section \<open>The pattern matcher is the pattern\<close>

lemma takeWhile_run: "list_all P d \<Longrightarrow> \<not> P c \<Longrightarrow> takeWhile P (d @ c # r) = d"
  by (induction d) auto

lemma dropWhile_run: "list_all P d \<Longrightarrow> \<not> P c \<Longrightarrow> dropWhile P (d @ c # r) = c # r"
  by (induction d) auto

lemma not_digit_dot: "\<not> isDigit CHR ''.''"
  by (simp add: isDigit_def)

lemma digits1_run:
  "digitRun d \<Longrightarrow> digits1 (d @ CHR ''.'' # r) = Some (d, CHR ''.'' # r)"
  by (simp add: digits1_def digitRun_def takeWhile_run dropWhile_run not_digit_dot)

lemma digits1_last:
  "digitRun d \<Longrightarrow> digits1 (d @ r) = Some (d @ takeWhile isDigit r, dropWhile isDigit r)"
  apply (auto simp: digits1_def digitRun_def Let_def list_all_iff takeWhile_append dropWhile_append)
  done

lemma takeWhile_dropWhile_Nil: "takeWhile P (dropWhile P xs) = []"
  by (induction xs) auto

lemma digits1_Some:
  "digits1 s = Some (d, r) \<Longrightarrow> digitRun d \<and> s = d @ r \<and> takeWhile isDigit r = []"
  by (auto simp: digits1_def digitRun_def Let_def list_all_iff takeWhile_dropWhile_Nil
      split: if_splits dest: set_takeWhileD)

lemma dot_Some: "dot s = Some r \<longleftrightarrow> s = CHR ''.'' # r"
  by (cases s) auto

lemma semverAt_complete:
  assumes "digitRun d1" "digitRun d2" "digitRun d3"
  shows "semverAt (d1 @ ''.'' @ d2 @ ''.'' @ d3 @ post) =
           Some (d1 @ ''.'' @ d2 @ ''.'' @ d3 @ takeWhile isDigit post)"
proof -
  have 1: "digits1 (d1 @ CHR ''.'' # d2 @ CHR ''.'' # d3 @ post) =
             Some (d1, CHR ''.'' # d2 @ CHR ''.'' # d3 @ post)"
    by (rule digits1_run [OF assms(1)])
  have 2: "digits1 (d2 @ CHR ''.'' # d3 @ post) = Some (d2, CHR ''.'' # d3 @ post)"
    by (rule digits1_run [OF assms(2)])
  have 3: "digits1 (d3 @ post) = Some (d3 @ takeWhile isDigit post, dropWhile isDigit post)"
    by (rule digits1_last [OF assms(3)])
  show ?thesis
    by (simp add: semverAt_def 1 2 3)
qed

lemma semverAt_sound:
  assumes "semverAt s = Some v"
  shows "semver v \<and> (\<exists>post. s = v @ post \<and> takeWhile isDigit post = [])"
  using assms
  by (auto simp: semverAt_def semver_def dot_Some split: option.splits prod.splits dest!: digits1_Some)

lemma matchAt_sound: "matchAt s = Some v \<Longrightarrow> matchesAt s v"
  by (auto simp: matchAt_def matchesAt_def prefix_def split: if_splits dest!: semverAt_sound)

lemma matchAt_complete:
  assumes "semver v"
  shows "matchAt (''anchor-cli '' @ v @ post) = Some (v @ takeWhile isDigit post)"
proof -
  from assms obtain d1 d2 d3 where d: "digitRun d1" "digitRun d2" "digitRun d3"
    and v: "v = d1 @ ''.'' @ d2 @ ''.'' @ d3"
    by (auto simp: semver_def)
  have "semverAt (v @ post) = Some (v @ takeWhile isDigit post)"
    using semverAt_complete [OF d, of post] by (simp add: v)
  then show ?thesis
    by (simp add: matchAt_def)
qed

lemma matchAt_iff: "matchAt s = Some v \<longleftrightarrow> matchesAt s v"
proof
  assume "matchAt s = Some v" then show "matchesAt s v" by (rule matchAt_sound)
next
  assume "matchesAt s v"
  then obtain post where "semver v" "s = ''anchor-cli '' @ v @ post" "takeWhile isDigit post = []"
    by (auto simp: matchesAt_def)
  then show "matchAt s = Some v"
    using matchAt_complete [of v post] by simp
qed

lemma matchAt_None_iff:
  "matchAt s = None \<longleftrightarrow> \<not> (\<exists>v post. semver v \<and> s = ''anchor-cli '' @ v @ post)"
proof
  assume n: "matchAt s = None"
  show "\<not> (\<exists>v post. semver v \<and> s = ''anchor-cli '' @ v @ post)"
  proof
    assume "\<exists>v post. semver v \<and> s = ''anchor-cli '' @ v @ post"
    then obtain v post where "semver v" "s = ''anchor-cli '' @ v @ post" by blast
    then have "matchAt s = Some (v @ takeWhile isDigit post)"
      using matchAt_complete [of v post] by simp
    with n show False by simp
  qed
next
  assume a: "\<not> (\<exists>v post. semver v \<and> s = ''anchor-cli '' @ v @ post)"
  show "matchAt s = None"
  proof (cases "matchAt s")
    case None then show ?thesis .
  next
    case (Some v)
    then have "matchesAt s v" by (rule matchAt_sound)
    with a show ?thesis by (auto simp: matchesAt_def)
  qed
qed

lemma containsVersion_Cons:
  "containsVersion (c # cs) \<longleftrightarrow>
     (\<exists>v post. semver v \<and> c # cs = ''anchor-cli '' @ v @ post) \<or> containsVersion cs"
proof
  assume "containsVersion (c # cs)"
  then obtain pre v post where sv: "semver v" and e: "c # cs = pre @ ''anchor-cli '' @ v @ post"
    by (auto simp: containsVersion_def)
  show "(\<exists>v post. semver v \<and> c # cs = ''anchor-cli '' @ v @ post) \<or> containsVersion cs"
  proof (cases pre)
    case Nil
    with sv e show ?thesis by auto
  next
    case (Cons a pre')
    with e have "cs = pre' @ ''anchor-cli '' @ v @ post" by simp
    with sv have "containsVersion cs" unfolding containsVersion_def by blast
    then show ?thesis ..
  qed
next
  assume "(\<exists>v post. semver v \<and> c # cs = ''anchor-cli '' @ v @ post) \<or> containsVersion cs"
  then show "containsVersion (c # cs)"
  proof
    assume "\<exists>v post. semver v \<and> c # cs = ''anchor-cli '' @ v @ post"
    then obtain v post where "semver v" "c # cs = [] @ ''anchor-cli '' @ v @ post" by auto
    then show ?thesis unfolding containsVersion_def by blast
  next
    assume "containsVersion cs"
    then obtain pre v post where "semver v" "cs = pre @ ''anchor-cli '' @ v @ post"
      by (auto simp: containsVersion_def)
    then have "semver v" "c # cs = (c # pre) @ ''anchor-cli '' @ v @ post" by auto
    then show ?thesis unfolding containsVersion_def by blast
  qed
qed

lemma not_containsVersion_Nil: "\<not> containsVersion []"
  by (auto simp: containsVersion_def)

lemma matchVersion_None_iff: "matchVersion s = None \<longleftrightarrow> \<not> containsVersion s"
proof (induction s)
  case Nil
  show ?case by (simp add: not_containsVersion_Nil)
next
  case (Cons c cs)
  show ?case
  proof (cases "matchAt (c # cs)")
    case None
    then show ?thesis
      using Cons.IH matchAt_None_iff [of "c # cs"] containsVersion_Cons [of c cs] by simp
  next
    case (Some v)
    then show ?thesis
      using matchAt_None_iff [of "c # cs"] containsVersion_Cons [of c cs] by auto
  qed
qed

lemma firstMatch_here: "matchesAt s v \<Longrightarrow> firstMatch s v"
  unfolding firstMatch_def by (rule exI [of _ "[]"]) simp

lemma firstMatch_later:
  assumes n: "matchAt (c # cs) = None" and f: "firstMatch cs v"
  shows "firstMatch (c # cs) v"
proof -
  from f obtain pre rest where s: "cs = pre @ rest" and m: "matchesAt rest v"
    and l: "\<forall>k<length pre. \<not> (\<exists>v'. matchesAt (drop k cs) v')"
    unfolding firstMatch_def by blast
  have "\<forall>k<length (c # pre). \<not> (\<exists>v'. matchesAt (drop k (c # cs)) v')"
  proof (intro allI impI)
    fix k assume k: "k < length (c # pre)"
    show "\<not> (\<exists>v'. matchesAt (drop k (c # cs)) v')"
    proof (cases k)
      case 0
      with n show ?thesis by (simp add: matchAt_iff [symmetric])
    next
      case (Suc j)
      with k l show ?thesis by simp
    qed
  qed
  with s m show ?thesis
    unfolding firstMatch_def by (intro exI [of _ "c # pre"] exI [of _ rest]) simp
qed

lemma matchVersion_firstMatch: "matchVersion s = Some v \<Longrightarrow> firstMatch s v"
proof (induction s)
  case Nil
  then show ?case by simp
next
  case (Cons c cs)
  show ?case
  proof (cases "matchAt (c # cs)")
    case None
    with Cons show ?thesis by (simp add: firstMatch_later)
  next
    case (Some v')
    with Cons.prems have "matchAt (c # cs) = Some v" by simp
    then show ?thesis by (simp add: firstMatch_here matchAt_sound)
  qed
qed

lemma matchVersion_skip:
  "matchAt rest = Some v \<Longrightarrow> \<forall>k<length pre. matchAt (drop k (pre @ rest)) = None \<Longrightarrow>
   matchVersion (pre @ rest) = Some v"
proof (induction pre)
  case Nil
  then show ?case by (cases rest) (auto simp: matchAt_def)
next
  case (Cons c pre)
  from Cons.prems(2) have 0: "matchAt (c # pre @ rest) = None" by fastforce
  have "\<forall>k<length pre. matchAt (drop k (pre @ rest)) = None"
  proof (intro allI impI)
    fix k assume "k < length pre"
    then have "Suc k < length (c # pre)" by simp
    with Cons.prems(2) have "matchAt (drop (Suc k) ((c # pre) @ rest)) = None" by blast
    then show "matchAt (drop k (pre @ rest)) = None" by simp
  qed
  with Cons.IH Cons.prems(1) have "matchVersion (pre @ rest) = Some v" by blast
  with 0 show ?case by simp
qed

lemma matchVersion_iff: "matchVersion s = Some v \<longleftrightarrow> firstMatch s v"
proof
  assume "matchVersion s = Some v" then show "firstMatch s v" by (rule matchVersion_firstMatch)
next
  assume "firstMatch s v"
  then obtain pre rest where s: "s = pre @ rest" and m: "matchesAt rest v"
    and l: "\<forall>k<length pre. \<not> (\<exists>v'. matchesAt (drop k s) v')"
    unfolding firstMatch_def by blast
  have "\<forall>k<length pre. matchAt (drop k (pre @ rest)) = None"
  proof (intro allI impI)
    fix k assume "k < length pre"
    with l s have "\<not> (\<exists>v'. matchesAt (drop k (pre @ rest)) v')" by blast
    then show "matchAt (drop k (pre @ rest)) = None"
      by (cases "matchAt (drop k (pre @ rest))") (auto simp: matchAt_iff)
  qed
  with m s show "matchVersion s = Some v"
    by (simp add: matchVersion_skip matchAt_iff)
qed

section \<open>Facts about strings\<close>

lemma includes_iff: "str_includes s sub \<longleftrightarrow> (\<exists>pre post. s = pre @ sub @ post)"
  by (auto simp: str_includes_def sublist_def)

section \<open>Promises and the version probe\<close>

lemma resolve_simps:
  "resolve v Pending = Resolved v" "resolve v (Resolved x) = Resolved x"
  "resolve v (Rejected e) = Rejected e"
  by (simp_all add: resolve_def)

lemma reject_simps:
  "reject e (Pending :: 'a promise) = Rejected e" "reject e (Resolved x) = Resolved x"
  "reject e (Rejected e' :: 'a promise) = Rejected e'"
  by (simp_all add: reject_def)

lemma settled_stays: "p \<noteq> Pending \<Longrightarrow> resolve v p = p \<and> reject e p = p"
  by (cases p) (simp_all add: resolve_def reject_def)

lemma probeOn_settled: "p \<noteq> Pending \<Longrightarrow> snd (probeOn (sd, p) ev) = p"
  by (cases ev) (auto simp: settled_stays split: option.splits)

lemma probe_fold_settled: "p \<noteq> Pending \<Longrightarrow> snd (foldl probeOn (sd, p) evs) = p"
proof (induction evs arbitrary: sd)
  case Nil
  show ?case by simp
next
  case (Cons ev evs)
  obtain sd' p' where st: "probeOn (sd, p) ev = (sd', p')" by (cases "probeOn (sd, p) ev")
  with probeOn_settled [OF Cons.prems, of sd ev] have "p' = p" by simp
  with st Cons show ?case by simp
qed

lemma probe_fold_quiet:
  "list_all (\<lambda>e. \<not> is_ChildError e \<and> \<not> is_ChildClose e) pre \<Longrightarrow>
   foldl probeOn (sd, p) pre = (sd @ stdout_of pre, p)"
proof (induction pre arbitrary: sd)
  case Nil
  show ?case by simp
next
  case (Cons ev pre)
  then show ?case by (cases ev) simp_all
qed

lemma probeOn_close_settles: "snd (probeOn (sd, p) (ChildClose code sg)) \<noteq> Pending"
  by (cases p) (auto simp: resolve_def reject_def split: option.splits)

lemma stdout_of_append: "stdout_of (xs @ ys) = stdout_of xs @ stdout_of ys"
  by (induction xs rule: stdout_of.induct) simp_all

lemma containsVersion_append: "containsVersion a \<Longrightarrow> containsVersion (a @ b)"
proof -
  assume "containsVersion a"
  then obtain pre v post where "semver v" "a = pre @ ''anchor-cli '' @ v @ post"
    by (auto simp: containsVersion_def)
  then have "semver v" "a @ b = pre @ ''anchor-cli '' @ v @ (post @ b)" by auto
  then show ?thesis unfolding containsVersion_def by blast
qed

lemma probeOn_never_resolves:
  assumes "\<not> containsVersion sd" "\<forall>v. p \<noteq> Resolved v"
  shows "\<forall>v. snd (probeOn (sd, p) (ChildClose code sg)) \<noteq> Resolved v"
proof -
  from assms(1) have "matchVersion sd = None" by (simp add: matchVersion_None_iff)
  with assms(2) show ?thesis by (cases p) (auto simp: resolve_def reject_def)
qed

lemma probe_fold_never_resolves:
  "\<not> containsVersion (sd @ stdout_of evs) \<Longrightarrow> \<forall>v. p \<noteq> Resolved v \<Longrightarrow>
   \<forall>v. snd (foldl probeOn (sd, p) evs) \<noteq> Resolved v"
proof (induction evs arbitrary: sd p)
  case Nil
  then show ?case by simp
next
  case (Cons ev evs)
  show ?case
  proof (cases ev)
    case (ChildError err)
    have "\<forall>v. reject x p \<noteq> Resolved v" for x
      using Cons.prems(2) by (cases p) (auto simp: reject_def)
    with ChildError Cons show ?thesis by simp
  next
    case (ChildExit c s)
    with Cons show ?thesis by simp
  next
    case (ChildClose c s)
    from Cons.prems(1) ChildClose have n: "\<not> containsVersion sd"
      using containsVersion_append [of sd "stdout_of evs"] by auto
    obtain p' where st: "probeOn (sd, p) (ChildClose c s) = (sd, p')"
      by (cases "probeOn (sd, p) (ChildClose c s)") (auto split: if_splits option.splits)
    with probeOn_never_resolves [OF n Cons.prems(2), of c s] have "\<forall>v. p' \<noteq> Resolved v" by simp
    with Cons.IH [of sd p'] Cons.prems(1) ChildClose st show ?thesis by simp
  next
    case (StdoutData d)
    with Cons.IH [of "sd @ d" p] Cons.prems show ?thesis by simp
  next
    case (StderrData d)
    with Cons show ?thesis by simp
  qed
qed

lemma probe_fold_fst: "fst (foldl probeOn (sd, p) evs) = sd @ stdout_of evs"
proof (induction evs arbitrary: sd p)
  case Nil
  show ?case by simp
next
  case (Cons ev evs)
  then show ?case by (cases ev) (simp_all split: option.splits)
qed

lemma probe_unfold:
  "probeChild w = Child evs \<Longrightarrow>
   snd (getAnchorCommandVersion w) = snd (foldl probeOn ('''', Pending) evs)"
  by (simp add: getAnchorCommandVersion_def probeChild_def)

lemma probe_closed_rejects:
  assumes "\<not> containsVersion (stdout_of pre)"
  shows "\<exists>e. snd (foldl probeOn ('''', Pending) (pre @ ChildClose code sg # rest)) = Rejected e"
proof -
  obtain sd p where st: "foldl probeOn ('''', Pending) pre = (sd, p)"
    by (cases "foldl probeOn ('''', Pending) pre")
  have sd: "sd = stdout_of pre"
    using probe_fold_fst [of "''''" Pending pre] st by simp
  have p: "\<forall>v. p \<noteq> Resolved v"
    using probe_fold_never_resolves [of "''''" pre Pending] assms st by simp
  obtain p' where st': "probeOn (sd, p) (ChildClose code sg) = (sd, p')"
    by (cases "probeOn (sd, p) (ChildClose code sg)") (auto split: if_splits option.splits)
  have 1: "p' \<noteq> Pending"
    using probeOn_close_settles [of sd p code sg] st' by simp
  have 2: "\<forall>v. p' \<noteq> Resolved v"
    using probeOn_never_resolves [of sd p code sg] assms sd p st' by simp
  from 1 2 obtain e where e: "p' = Rejected e" by (cases p') auto
  have "snd (foldl probeOn ('''', Pending) (pre @ ChildClose code sg # rest)) = p'"
    using probe_fold_settled [OF 1, of sd rest] st st' by simp
  with e show ?thesis by simp
qed

lemma probe_clean_close:
  assumes "list_all (\<lambda>e. \<not> is_ChildError e \<and> \<not> is_ChildClose e) pre"
  shows "snd (foldl probeOn ('''', Pending) (pre @ ChildClose code sg # rest)) =
           snd (probeOn (stdout_of pre, Pending) (ChildClose code sg))"
proof -
  have "foldl probeOn ('''', Pending) pre = (stdout_of pre, Pending)"
    using probe_fold_quiet [OF assms, of "''''" Pending] by simp
  moreover obtain p' where st': "probeOn (stdout_of pre, Pending) (ChildClose code sg) = (stdout_of pre, p')"
    by (cases "probeOn (stdout_of pre, Pending) (ChildClose code sg)") (auto split: if_splits option.splits)
  moreover have "p' \<noteq> Pending"
    using probeOn_close_settles [of "stdout_of pre" Pending code sg] st' by simp
  ultimately show ?thesis
    using probe_fold_settled [of p' "stdout_of pre" rest] by simp
qed

text \<open>
  Claim C8. Let the version probe's child emit the events \<open>pre\<close> and then \<^verbatim>\<open>close\<close>.
  If the standard output collected so far contains no substring matching
  \<^verbatim>\<open>/anchor-cli (\d+\.\d+\.\d+)/\<close>, the probe's promise is rejected, whatever else happened.
  If moreover the child emitted neither \<^verbatim>\<open>error\<close> nor an earlier \<^verbatim>\<open>close\<close> and closes
  with code 0, then without a match the rejection is the string
  \<^verbatim>\<open>'Anchor version matching failed'\<close>, and with a match the promise is resolved with
  the group of the leftmost match, which is a version of three dot-separated numbers.
\<close>

theorem getAnchorCommandVersion_pattern:
  assumes run: "probeChild w = Child (pre @ ChildClose code sg # rest)"
  shows "(\<not> containsVersion (stdout_of pre) \<longrightarrow>
            (\<exists>e. snd (getAnchorCommandVersion w) = Rejected e)) \<and>
         (list_all (\<lambda>e. \<not> is_ChildError e \<and> \<not> is_ChildClose e) pre \<and> code = Some 0 \<longrightarrow>
            (\<not> containsVersion (stdout_of pre) \<longrightarrow>
               snd (getAnchorCommandVersion w) = Rejected (JStr ''Anchor version matching failed'')) \<and>
            (containsVersion (stdout_of pre) \<longrightarrow>
               (\<exists>v. snd (getAnchorCommandVersion w) = Resolved v \<and> firstMatch (stdout_of pre) v)))"
proof (intro conjI impI)
  assume "\<not> containsVersion (stdout_of pre)"
  then show "\<exists>e. snd (getAnchorCommandVersion w) = Rejected e"
    using probe_closed_rejects [of pre code sg rest] probe_unfold [OF run] by simp
next
  assume a: "list_all (\<lambda>e. \<not> is_ChildError e \<and> \<not> is_ChildClose e) pre \<and> code = Some 0"
    and n: "\<not> containsVersion (stdout_of pre)"
  from n have "matchVersion (stdout_of pre) = None" by (simp add: matchVersion_None_iff)
  then show "snd (getAnchorCommandVersion w) = Rejected (JStr ''Anchor version matching failed'')"
    using probe_clean_close [of pre code sg rest] probe_unfold [OF run] a
    by (simp add: reject_def)
next
  assume a: "list_all (\<lambda>e. \<not> is_ChildError e \<and> \<not> is_ChildClose e) pre \<and> code = Some 0"
    and c: "containsVersion (stdout_of pre)"
  from c obtain v where v: "matchVersion (stdout_of pre) = Some v"
    using matchVersion_None_iff [of "stdout_of pre"] by (cases "matchVersion (stdout_of pre)") auto
  then have "firstMatch (stdout_of pre) v" by (rule matchVersion_firstMatch)
  moreover have "snd (getAnchorCommandVersion w) = Resolved v"
    using probe_clean_close [of pre code sg rest] probe_unfold [OF run] a v
    by (simp add: resolve_def)
  ultimately show "\<exists>v. snd (getAnchorCommandVersion w) = Resolved v \<and> firstMatch (stdout_of pre) v"
    by blast
qed

lemma includes_appendI: "str_includes (a @ b) b"
  by (simp add: str_includes_def)

lemma includes_midI: "str_includes (a @ b @ c) b"
  by (simp add: str_includes_def)

text \<open>
  Claim C9. When the probe's child closes with a code other than 0 (and emitted neither
  \<^verbatim>\<open>error\<close> nor an earlier \<^verbatim>\<open>close\<close>), the promise is rejected with an \<^verbatim>\<open>Error\<close>
  whose message is \<^verbatim>\<open>Process exited with code\<close> followed by that code, so the message
  contains the code. The rejection is the same for every output of the child: a second
  run \<open>w'\<close> with any other output and the same code is rejected with the same value, so
  the pattern is not consulted.
\<close>

theorem getAnchorCommandVersion_exit_code:
  assumes run: "probeChild w = Child (pre @ ChildClose code sg # rest)"
      and quiet: "list_all (\<lambda>e. \<not> is_ChildError e \<and> \<not> is_ChildClose e) pre"
      and run': "probeChild w' = Child (pre' @ ChildClose code sg' # rest')"
      and quiet': "list_all (\<lambda>e. \<not> is_ChildError e \<and> \<not> is_ChildClose e) pre'"
      and nz: "code \<noteq> Some 0"
  shows "snd (getAnchorCommandVersion w) =
           Rejected (JErr \<lparr>name = ''Error'',
                           message = ''Process exited with code '' @ string_of_code code\<rparr>) \<and>
         str_includes (''Process exited with code '' @ string_of_code code) (string_of_code code) \<and>
         snd (getAnchorCommandVersion w') = snd (getAnchorCommandVersion w)"
proof -
  have "snd (getAnchorCommandVersion x) =
           Rejected (JErr \<lparr>name = ''Error'',
                           message = ''Process exited with code '' @ string_of_code code\<rparr>)"
    if "probeChild x = Child (p @ ChildClose code s # r)"
      and "list_all (\<lambda>e. \<not> is_ChildError e \<and> \<not> is_ChildClose e) p" for x p s r
    using probe_clean_close [OF that(2), of code s r] probe_unfold [OF that(1)] nz
    by (simp add: reject_def Error_new_def)
  from this [OF run quiet] this [OF run' quiet'] show ?thesis
    using includes_appendI [of "''Process exited with code ''" "string_of_code code"] by simp
qed

lemmas matcher_eval =
  matchAt_def semverAt_def digits1_def isDigit_def Let_def

theorem getAnchorCommandVersion_pattern_witness:
  "snd (getAnchorCommandVersion
          (exampleWorld [StdoutData ''anchor-cli 0.27.0'', ChildExit (Some 0) None,
                         ChildClose (Some 0) None] [] None Pending Pending Pending)) =
     Resolved ''0.27.0'' \<and>
   firstMatch ''anchor-cli 0.27.0'' ''0.27.0'' \<and>
   snd (getAnchorCommandVersion
          (exampleWorld [StdoutData ''anchor 0.27.0'', ChildExit (Some 0) None,
                         ChildClose (Some 0) None] [] None Pending Pending Pending)) =
     Rejected (JStr ''Anchor version matching failed'')"
proof -
  let ?pre = "[StdoutData ''anchor-cli 0.27.0'', ChildExit (Some 0) None]"
  let ?w = "exampleWorld (?pre @ ChildClose (Some 0) None # []) [] None Pending Pending Pending"
  let ?pre' = "[StdoutData ''anchor 0.27.0'', ChildExit (Some 0) None]"
  let ?w' = "exampleWorld (?pre' @ ChildClose (Some 0) None # []) [] None Pending Pending Pending"
  have run: "probeChild ?w = Child (?pre @ ChildClose (Some 0) None # [])"
    by (simp add: probeChild_def exampleWorld_def)
  have run': "probeChild ?w' = Child (?pre' @ ChildClose (Some 0) None # [])"
    by (simp add: probeChild_def exampleWorld_def)
  have c: "containsVersion (stdout_of ?pre)"
    using matchVersion_None_iff [of "''anchor-cli 0.27.0''"] by (simp add: matcher_eval)
  have n: "\<not> containsVersion (stdout_of ?pre')"
    using matchVersion_None_iff [of "''anchor 0.27.0''"] by (simp add: matcher_eval)
  have v: "snd (getAnchorCommandVersion ?w) = Resolved ''0.27.0''"
    by (simp add: getAnchorCommandVersion_def exampleWorld_def matcher_eval resolve_def)
  from getAnchorCommandVersion_pattern [OF run] c
  have "\<exists>v. snd (getAnchorCommandVersion ?w) = Resolved v \<and> firstMatch (stdout_of ?pre) v"
    by simp
  with v have 1: "firstMatch ''anchor-cli 0.27.0'' ''0.27.0''" by simp
  from getAnchorCommandVersion_pattern [OF run'] n
  have 2: "snd (getAnchorCommandVersion ?w') = Rejected (JStr ''Anchor version matching failed'')"
    by simp
  from v 1 2 show ?thesis by simp
qed

theorem getAnchorCommandVersion_exit_code_witness:
  "snd (getAnchorCommandVersion
          (exampleWorld [StdoutData ''anchor-cli 0.27.0'', ChildExit (Some 1) None,
                         ChildClose (Some 1) None] [] None Pending Pending Pending)) =
     Rejected (JErr \<lparr>name = ''Error'', message = ''Process exited with code 1''\<rparr>) \<and>
   str_includes ''Process exited with code 1'' ''1'' \<and>
   snd (getAnchorCommandVersion
          (exampleWorld [ChildExit (Some 1) None, ChildClose (Some 1) None] [] None
             Pending Pending Pending)) =
     Rejected (JErr \<lparr>name = ''Error'', message = ''Process exited with code 1''\<rparr>)"
proof -
  let ?pre = "[StdoutData ''anchor-cli 0.27.0'', ChildExit (Some 1) None]"
  let ?w = "exampleWorld (?pre @ ChildClose (Some 1) None # []) [] None Pending Pending Pending"
  let ?pre' = "[ChildExit (Some 1) None]"
  let ?w' = "exampleWorld (?pre' @ ChildClose (Some 1) None # []) [] None Pending Pending Pending"
  have run: "probeChild ?w = Child (?pre @ ChildClose (Some 1) None # [])"
    by (simp add: probeChild_def exampleWorld_def)
  have run': "probeChild ?w' = Child (?pre' @ ChildClose (Some 1) None # [])"
    by (simp add: probeChild_def exampleWorld_def)
  have s: "string_of_code (Some 1) = ''1''"
    by (simp add: string_of_code_def string_of_int_def)
  from getAnchorCommandVersion_exit_code [OF run _ run'] s show ?thesis
    by simp
qed

lemma parseCargoToml_ok:
  "readFile w path = Resolved toml \<Longrightarrow> parse w toml = Inr parsed \<Longrightarrow>
   parseCargoToml w path = ([], Resolved (parsed, toml))"
  by (simp add: parseCargoToml_def)

section \<open>The manifest's version\<close>

text \<open>
  Claim C4. When the manifest is read and parsed and holds an \<^verbatim>\<open>anchor-lang\<close> dependency,
  \<open>getAnchorVersionInToml\<close> resolves with exactly \<open>v\<close> both when the entry is the bare
  string \<open>v\<close> and when it is a table whose \<^verbatim>\<open>version\<close> is \<open>v\<close>, whatever other fields
  the table has.
\<close>

theorem getAnchorVersionInToml_present:
  assumes "readFile w path = Resolved toml" and "parse w toml = Inr parsed"
      and "dependencies parsed = Some deps"
  shows "(deps ''anchor-lang'' = Some (DepString v) \<longrightarrow>
            snd (getAnchorVersionInToml w path) = Resolved v) \<and>
         (deps ''anchor-lang'' = Some (DepTable \<lparr>version = v, other_fields = extra\<rparr>) \<longrightarrow>
            snd (getAnchorVersionInToml w path) = Resolved v)"
  using assms by (simp add: getAnchorVersionInToml_def parseCargoToml_ok)

theorem getAnchorVersionInToml_present_witness:
  "snd (getAnchorVersionInToml
          (exampleWorld [] [] (Some (DepString ''0.27.0'')) Pending Pending Pending)
          ''program/Cargo.toml'') = Resolved ''0.27.0'' \<and>
   snd (getAnchorVersionInToml
          (exampleWorld [] []
             (Some (DepTable \<lparr>version = ''0.27.0'',
                              other_fields = [(''features'', TArray [TString ''init-if-needed''])]\<rparr>))
             Pending Pending Pending)
          ''program/Cargo.toml'') = Resolved ''0.27.0''"
proof -
  let ?w1 = "exampleWorld [] [] (Some (DepString ''0.27.0'')) Pending Pending Pending"
  let ?t = "\<lparr>version = ''0.27.0'', other_fields = [(''features'', TArray [TString ''init-if-needed''])]\<rparr>"
  let ?w2 = "exampleWorld [] [] (Some (DepTable ?t)) Pending Pending Pending"
  let ?d1 = "\<lambda>k. if k = ''anchor-lang'' then Some (DepString ''0.27.0'') else None"
  let ?d2 = "\<lambda>k. if k = ''anchor-lang'' then Some (DepTable ?t) else None"
  let ?p1 = "\<lparr>dependencies = Some ?d1\<rparr>"
  let ?p2 = "\<lparr>dependencies = Some ?d2\<rparr>"
  have d1: "dependencies ?p1 = Some ?d1" and d2: "dependencies ?p2 = Some ?d2"
    by simp_all
  have r1: "readFile ?w1 ''program/Cargo.toml'' = Resolved ''toml''" and p1: "parse ?w1 ''toml'' = Inr ?p1"
    by (simp_all add: exampleWorld_def)
  have r2: "readFile ?w2 ''program/Cargo.toml'' = Resolved ''toml''" and p2: "parse ?w2 ''toml'' = Inr ?p2"
    by (simp_all add: exampleWorld_def)
  from getAnchorVersionInToml_present [OF r1 p1 d1, of "''0.27.0''"]
    getAnchorVersionInToml_present [OF r2 p2 d2, of "''0.27.0''" "[(''features'', TArray [TString ''init-if-needed''])]"]
  show ?thesis by simp
qed

text \<open>
  The manifest has a \<^verbatim>\<open>[dependencies]\<close> table without an \<^verbatim>\<open>anchor-lang\<close> entry: the
  rejection is the \<^verbatim>\<open>Error\<close> of the source, whose message names the dependency (in the
  spelling \<^verbatim>\<open>anchor_lang\<close> of the crate; the key looked up is \<^verbatim>\<open>anchor-lang\<close>) and ends
  with the path of the manifest.
\<close>

lemma getAnchorVersionInToml_entry_absent:
  assumes "readFile w path = Resolved toml" and "parse w toml = Inr parsed"
      and "dependencies parsed = Some deps" and "deps ''anchor-lang'' = None"
  shows "snd (getAnchorVersionInToml w path) =
           Rejected (JErr \<lparr>name = ''Error'',
                           message = ''anchor_lang not found as dependency in '' @ path\<rparr>) \<and>
         str_includes (''anchor_lang not found as dependency in '' @ path) ''anchor_lang'' \<and>
         str_includes (''anchor_lang not found as dependency in '' @ path) path"
proof -
  have "str_includes (''anchor_lang not found as dependency in '' @ path) ''anchor_lang''"
    using includes_midI [of "[]" "''anchor_lang''" "'' not found as dependency in '' @ path"]
    by simp
  moreover have "str_includes (''anchor_lang not found as dependency in '' @ path) path"
    by (rule includes_appendI)
  ultimately show ?thesis
    using assms by (simp add: getAnchorVersionInToml_def parseCargoToml_ok Error_new_def)
qed

lemma getAnchorVersionInToml_entry_absent_example:
  "snd (getAnchorVersionInToml (exampleWorld [] [] None Pending Pending Pending)
          ''program/Cargo.toml'') =
     Rejected (JErr \<lparr>name = ''Error'',
                     message = ''anchor_lang not found as dependency in program/Cargo.toml''\<rparr>)"
  by (simp add: getAnchorVersionInToml_def parseCargoToml_def exampleWorld_def Error_new_def)

text \<open>
  Claim C5. An absent \<^verbatim>\<open>anchor-lang\<close> dependency is to be reported by an error that
  names the dependency and the path of the manifest. The source reports it so when the
  manifest has a \<^verbatim>\<open>[dependencies]\<close> table (\<open>getAnchorVersionInToml_entry_absent\<close>).
  When the manifest has no such table, the dependency is absent as well, but
  \<^verbatim>\<open>parsed.dependencies['anchor-lang']\<close> throws before the test for \<^verbatim>\<open>null\<close> is
  reached: the rejection is the engine's \<^verbatim>\<open>TypeError\<close>, which is not the \<^verbatim>\<open>Error\<close>
  naming the dependency and the manifest.
\<close>

theorem getAnchorVersionInToml_no_dependencies_table:
  assumes "readFile w path = Resolved toml" and "parse w toml = Inr parsed"
      and "dependencies parsed = None"
  shows "snd (getAnchorVersionInToml w path) =
           Rejected (JErr \<lparr>name = ''TypeError'',
                           message = undefinedReadMessage w ''anchor-lang''\<rparr>) \<and>
         snd (getAnchorVersionInToml w path) \<noteq>
           Rejected (JErr \<lparr>name = ''Error'',
                           message = ''anchor_lang not found as dependency in '' @ path\<rparr>)"
  using assms by (simp add: getAnchorVersionInToml_def parseCargoToml_ok)

theorem getAnchorVersionInToml_no_dependencies_table_witness:
  "snd (getAnchorVersionInToml
          (workspaceManifest (exampleWorld [] [] None Pending Pending Pending))
          ''program/Cargo.toml'') =
     Rejected (JErr \<lparr>name = ''TypeError'',
        message = ''Cannot read properties of undefined (reading '' @ [CHR 0x27] @
                  ''anchor-lang'' @ [CHR 0x27] @ '')''\<rparr>) \<and>
   \<not> str_includes (''Cannot read properties of undefined (reading '' @ [CHR 0x27] @
                  ''anchor-lang'' @ [CHR 0x27] @ '')'') ''program/Cargo.toml''"
proof -
  let ?w = "workspaceManifest (exampleWorld [] [] None Pending Pending Pending)"
  have r: "readFile ?w ''program/Cargo.toml'' = Resolved ''toml''"
    and p: "parse ?w ''toml'' = Inr \<lparr>dependencies = None\<rparr>"
    and m: "undefinedReadMessage ?w ''anchor-lang'' =
              ''Cannot read properties of undefined (reading '' @ [CHR 0x27] @
                  ''anchor-lang'' @ [CHR 0x27] @ '')''"
    by (simp_all add: workspaceManifest_def exampleWorld_def)
  have n: "\<not> str_includes (''Cannot read properties of undefined (reading '' @ [CHR 0x27] @
                  ''anchor-lang'' @ [CHR 0x27] @ '')'') ''program/Cargo.toml''"
    by (simp add: str_includes_def sublist_Cons_right)
  from getAnchorVersionInToml_no_dependencies_table [OF r p] m n show ?thesis
    by simp
qed

lemma confirm_no_spawn: "filter is_Spawn (fst (confirmAutoMessageLog a)) = []"
  by (simp add: confirmAutoMessageLog_def split: option.splits)

lemma confirms_no_spawn:
  "filter is_Spawn (concat (map (\<lambda>a. fst (confirmAutoMessageLog a)) confirms)) = []"
  by (induction confirms) (simp_all add: confirm_no_spawn)

section \<open>The installer-driven orchestrator without an installed version\<close>

text \<open>
  Claim C6. When \<open>rustbinMatch\<close> resolves with a result whose \<^verbatim>\<open>binVersion\<close> is null,
  \<open>handle\<close> is rejected with an \<^verbatim>\<open>Error\<close> whose message names the binary, and it
  spawns no process, whatever \<^verbatim>\<open>fullPathToBinary\<close> the result holds.
\<close>

theorem handle_no_installed_version:
  assumes "rustbinMatch w rustbinConfig = (confirms, Resolved m)" and "binVersion m = None"
  shows "snd (handle w config rustbinConfig spawnArgs spawnOpts prettierConfig ra) =
           Rejected (JErr \<lparr>name = ''Error'',
              message = ''rustbin was unable to determine installed version '' @
                        binaryName rustbinConfig @
                        '', it may not have been installed correctly.''\<rparr>) \<and>
         str_includes (''rustbin was unable to determine installed version '' @
                        binaryName rustbinConfig @
                        '', it may not have been installed correctly.'') (binaryName rustbinConfig) \<and>
         filter is_Spawn (fst (handle w config rustbinConfig spawnArgs spawnOpts prettierConfig ra)) = []"
proof -
  have "str_includes (''rustbin was unable to determine installed version '' @
                        binaryName rustbinConfig @
                        '', it may not have been installed correctly.'') (binaryName rustbinConfig)"
    by (rule includes_midI)
  then show ?thesis
    using assms by (simp add: handle_def Error_new_def confirms_no_spawn)
qed

theorem handle_no_installed_version_witness:
  "snd (handleShank
          (exampleWorld [] [ChildExit (Some 0) None] None Pending Pending
             (Resolved \<lparr>fullPathToBinary = ''bin/shank'', binVersion = None,
                         libVersion = ''0.4.2''\<rparr>))
          exampleConfig None) =
     Rejected (JErr \<lparr>name = ''Error'',
        message = ''rustbin was unable to determine installed version shank, it may not have been installed correctly.''\<rparr>) \<and>
   filter is_Spawn (fst (handleShank
          (exampleWorld [] [ChildExit (Some 0) None] None Pending Pending
             (Resolved \<lparr>fullPathToBinary = ''bin/shank'', binVersion = None,
                         libVersion = ''0.4.2''\<rparr>))
          exampleConfig None)) = []"
proof -
  let ?m = "\<lparr>fullPathToBinary = ''bin/shank'', binVersion = None, libVersion = ''0.4.2''\<rparr>"
  let ?w = "exampleWorld [] [ChildExit (Some 0) None] None Pending Pending (Resolved ?m)"
  have r: "rustbinMatch ?w rc = ([], Resolved ?m)" for rc
    by (simp add: exampleWorld_def)
  have b: "binVersion ?m = None" by simp
  from handle_no_installed_version [OF r b] show ?thesis
    by (simp add: handleShank_def)
qed

section \<open>The listeners of the generation run\<close>

lemma anchorOn_eq_handleOn:
  "anchorOn w config pc cli lib st ev =
   handleOn w config pc (anchorRemainingAccounts config) cli lib st ev"
  by (cases st; cases ev) (simp_all add: anchorOnExit_def handleOnExit_def)

lemma anchor_fold_eq_handle_fold:
  "foldl (anchorOn w config pc cli lib) st evs =
   foldl (handleOn w config pc (anchorRemainingAccounts config) cli lib) st evs"
  by (induction evs arbitrary: st) (simp_all add: anchorOn_eq_handleOn)

lemma handleOnExit_no_spawn:
  "filter is_Spawn (fst (handleOnExit w config pc ra b l (tr, p))) = filter is_Spawn tr"
  by (simp add: handleOnExit_def Let_def split: promise.splits)

lemma handleOn_no_spawn:
  "filter is_Spawn (fst (handleOn w config pc ra b l (tr, p) ev)) = filter is_Spawn tr"
  by (cases ev) (simp_all add: handleOnExit_no_spawn)

lemma handle_fold_no_spawn:
  "filter is_Spawn (fst (foldl (handleOn w config pc ra b l) (tr, p) evs)) = filter is_Spawn tr"
proof (induction evs arbitrary: tr p)
  case Nil
  show ?case by simp
next
  case (Cons ev evs)
  obtain tr' p' where st: "handleOn w config pc ra b l (tr, p) ev = (tr', p')"
    by (cases "handleOn w config pc ra b l (tr, p) ev")
  with handleOn_no_spawn [of w config pc ra b l tr p ev] have "filter is_Spawn tr' = filter is_Spawn tr"
    by simp
  with Cons.IH [of tr' p'] st show ?case by simp
qed

lemma getAnchorCommandVersion_trace: "fst (getAnchorCommandVersion w) = [probeSpawn]"
  by (simp add: getAnchorCommandVersion_def split: spawn_result.splits)

lemma parseCargoToml_no_spawn: "filter is_Spawn (fst (parseCargoToml w path)) = []"
  by (simp add: parseCargoToml_def split: promise.splits sum.splits)

lemma getAnchorVersionInToml_no_spawn: "filter is_Spawn (fst (getAnchorVersionInToml w path)) = []"
  using parseCargoToml_no_spawn [of w path]
  by (cases "parseCargoToml w path")
     (auto simp: getAnchorVersionInToml_def split: promise.splits option.splits)

lemma handleAnchor_mismatch:
  assumes "snd (getAnchorCommandVersion w) = Resolved cli"
      and "snd (getAnchorVersionInToml w (manifestOf w config)) = Resolved lib"
      and "cli \<noteq> lib"
  shows "handleAnchor w config pc =
           ([probeSpawn] @ fst (getAnchorVersionInToml w (manifestOf w config)),
            Rejected (JErr (Error_new (''Anchor version mismatch! Selected anchor cli: '' @ cli @
                           '', in Cargo.toml: '' @ lib))))"
  using assms getAnchorCommandVersion_trace [of w]
  by (cases "getAnchorCommandVersion w"; cases "getAnchorVersionInToml w (manifestOf w config)")
     (simp add: handleAnchor_def Let_def manifestOf_def)

lemma handleAnchor_match:
  assumes "snd (getAnchorCommandVersion w) = Resolved v"
      and "snd (getAnchorVersionInToml w (manifestOf w config)) = Resolved v"
  shows "handleAnchor w config pc =
           (case anchorChild w config of
              SpawnThrows e \<Rightarrow>
                ([probeSpawn] @ fst (getAnchorVersionInToml w (manifestOf w config)) @
                   [anchorSpawn config], Rejected e)
            | Child evs \<Rightarrow>
                foldl (anchorOn w config pc v v)
                  ([probeSpawn] @ fst (getAnchorVersionInToml w (manifestOf w config)) @
                     [anchorSpawn config], Pending) evs)"
  using assms getAnchorCommandVersion_trace [of w]
  by (cases "getAnchorCommandVersion w"; cases "getAnchorVersionInToml w (manifestOf w config)")
     (simp add: handleAnchor_def Let_def manifestOf_def anchorChild_def anchorSpawn_def
        split: spawn_result.splits)

text \<open>
  Claim C1. Let the probe resolve with the version \<open>cli\<close> and the manifest with the
  version \<open>lib\<close>. If the two differ, \<open>handleAnchor\<close> is rejected with an \<^verbatim>\<open>Error\<close>
  whose message contains both, and the only process it has spawned is the probe: the
  generation run is not spawned. If they are equal, it spawns the generation run,
  \<^verbatim>\<open>anchor build --idl <idlDir>\<close> in the program's directory, after the probe.
\<close>

theorem handleAnchor_version_check:
  assumes "snd (getAnchorCommandVersion w) = Resolved cli"
      and "snd (getAnchorVersionInToml w (manifestOf w config)) = Resolved lib"
  shows "(cli \<noteq> lib \<longrightarrow>
            snd (handleAnchor w config pc) =
              Rejected (JErr \<lparr>name = ''Error'',
                 message = ''Anchor version mismatch! Selected anchor cli: '' @ cli @
                           '', in Cargo.toml: '' @ lib\<rparr>) \<and>
            str_includes (''Anchor version mismatch! Selected anchor cli: '' @ cli @
                           '', in Cargo.toml: '' @ lib) cli \<and>
            str_includes (''Anchor version mismatch! Selected anchor cli: '' @ cli @
                           '', in Cargo.toml: '' @ lib) lib \<and>
            filter is_Spawn (fst (handleAnchor w config pc)) = [probeSpawn]) \<and>
         (cli = lib \<longrightarrow>
            filter is_Spawn (fst (handleAnchor w config pc)) = [probeSpawn, anchorSpawn config])"
proof (intro conjI impI)
  assume ne: "cli \<noteq> lib"
  note m = handleAnchor_mismatch [OF assms ne, of pc]
  show "snd (handleAnchor w config pc) =
          Rejected (JErr \<lparr>name = ''Error'',
             message = ''Anchor version mismatch! Selected anchor cli: '' @ cli @
                       '', in Cargo.toml: '' @ lib\<rparr>)"
    by (simp add: m Error_new_def)
  show "str_includes (''Anchor version mismatch! Selected anchor cli: '' @ cli @
                           '', in Cargo.toml: '' @ lib) cli"
    by (rule includes_midI)
  show "str_includes (''Anchor version mismatch! Selected anchor cli: '' @ cli @
                           '', in Cargo.toml: '' @ lib) lib"
    using includes_appendI [of "''Anchor version mismatch! Selected anchor cli: '' @ cli @
                           '', in Cargo.toml: ''" lib] by simp
  show "filter is_Spawn (fst (handleAnchor w config pc)) = [probeSpawn]"
    by (simp add: m getAnchorVersionInToml_no_spawn probeSpawn_def)
next
  assume eq: "cli = lib"
  note m = handleAnchor_match [OF assms(1) assms(2) [folded eq], of pc]
  show "filter is_Spawn (fst (handleAnchor w config pc)) = [probeSpawn, anchorSpawn config]"
  proof (cases "anchorChild w config")
    case (SpawnThrows e)
    then show ?thesis
      by (simp add: m getAnchorVersionInToml_no_spawn probeSpawn_def anchorSpawn_def)
  next
    case (Child evs)
    then show ?thesis
      by (simp add: m anchor_fold_eq_handle_fold handle_fold_no_spawn
          getAnchorVersionInToml_no_spawn probeSpawn_def anchorSpawn_def)
  qed
qed

lemma handleOnExit_settled:
  "p \<noteq> Pending \<Longrightarrow> snd (handleOnExit w config pc ra b l (tr, p)) = p"
  by (simp add: handleOnExit_def Let_def settled_stays split: promise.splits)

lemma handleOn_settled:
  "p \<noteq> Pending \<Longrightarrow> snd (handleOn w config pc ra b l (tr, p) ev) = p"
  by (cases ev) (simp_all add: handleOnExit_settled settled_stays)

lemma handle_fold_settled:
  "p \<noteq> Pending \<Longrightarrow> snd (foldl (handleOn w config pc ra b l) (tr, p) evs) = p"
proof (induction evs arbitrary: tr)
  case Nil
  show ?case by simp
next
  case (Cons ev evs)
  obtain tr' p' where st: "handleOn w config pc ra b l (tr, p) ev = (tr', p')"
    by (cases "handleOn w config pc ra b l (tr, p) ev")
  with handleOn_settled [OF Cons.prems, of w config pc ra b l tr ev] have "p' = p" by simp
  with st Cons show ?case by simp
qed

lemma handle_unfold:
  assumes "rustbinMatch w rc = (confirms, Resolved m)" and "binVersion m = Some binV"
      and "spawn w (fullPathToBinary m) spawnArgs spawnOpts = Child evs"
  shows "handle w config rc spawnArgs spawnOpts pc ra =
           foldl (handleOn w config pc ra binV (libVersion m))
             (concat (map (\<lambda>a. fst (confirmAutoMessageLog a)) confirms) @
                [Spawn (fullPathToBinary m) spawnArgs spawnOpts], Pending) evs"
  using assms by (simp add: handle_def)

lemma handleAnchor_unfold:
  assumes "snd (getAnchorCommandVersion w) = Resolved v"
      and "snd (getAnchorVersionInToml w (manifestOf w config)) = Resolved v"
      and "anchorChild w config = Child evs"
  shows "handleAnchor w config pc =
           foldl (handleOn w config pc (anchorRemainingAccounts config) v v)
             ([probeSpawn] @ fst (getAnchorVersionInToml w (manifestOf w config)) @
                [anchorSpawn config], Pending) evs"
  using handleAnchor_match [OF assms(1,2), of pc] assms(3)
  by (simp add: anchor_fold_eq_handle_fold)

text \<open>Both collaborators succeed: the first \<^verbatim>\<open>exit\<close> resolves the promise.\<close>

lemma handleOnExit_ok:
  assumes "enhanceIdl w config b l = Resolved i"
      and "generateTypeScriptSDK w i (sdkDir config) pc (typeAliases config) (serializers config) ra
             = Resolved u"
  shows "snd (handleOnExit w config pc ra b l (tr, p)) = resolve () p"
  using assms by (simp add: handleOnExit_def Let_def)

lemma handle_fold_ok:
  assumes "enhanceIdl w config b l = Resolved i"
      and "generateTypeScriptSDK w i (sdkDir config) pc (typeAliases config) (serializers config) ra
             = Resolved u"
  shows "\<not> list_ex is_ChildError evs \<Longrightarrow> list_ex is_ChildExit evs \<Longrightarrow>
         snd (foldl (handleOn w config pc ra b l) (tr, Pending) evs) = Resolved ()"
proof (induction evs arbitrary: tr)
  case Nil
  then show ?case by simp
next
  case (Cons ev evs)
  show ?case
  proof (cases ev)
    case (ChildExit c s)
    obtain tr' p' where st: "handleOnExit w config pc ra b l (tr, Pending) = (tr', p')"
      by (cases "handleOnExit w config pc ra b l (tr, Pending)")
    with handleOnExit_ok [OF assms, of tr Pending] have p': "p' = Resolved ()"
      by (simp add: resolve_def)
    then have "p' \<noteq> Pending" by simp
    from handle_fold_settled [OF this, of w config pc ra b l tr' evs] st p' ChildExit
    show ?thesis by simp
  next
    case (ChildError e)
    with Cons.prems show ?thesis by simp
  next
    case (ChildClose c s)
    with Cons show ?thesis by simp
  next
    case (StdoutData d)
    with Cons show ?thesis by simp
  next
    case (StderrData d)
    with Cons show ?thesis by simp
  qed
qed

lemma handleOn_exit_code:
  "handleOn w config pc ra b l st (ChildExit code sg) =
   handleOn w config pc ra b l st (ChildExit (Some 0) None)"
  by (cases st) simp

lemma anchorOn_exit_code:
  "anchorOn w config pc b l st (ChildExit code sg) =
   anchorOn w config pc b l st (ChildExit (Some 0) None)"
  by (cases st) simp

text \<open>Erasing the codes of the generation run changes nothing.\<close>

lemma eraseCodesOf_fields:
  "readFile (eraseCodesOf w c a opt) = readFile w"
  "parse (eraseCodesOf w c a opt) = parse w"
  "path_join (eraseCodesOf w c a opt) = path_join w"
  "enhanceIdl (eraseCodesOf w c a opt) = enhanceIdl w"
  "generateTypeScriptSDK (eraseCodesOf w c a opt) = generateTypeScriptSDK w"
  "rustbinMatch (eraseCodesOf w c a opt) = rustbinMatch w"
  "undefinedReadMessage (eraseCodesOf w c a opt) = undefinedReadMessage w"
  by (simp_all add: eraseCodesOf_def)

lemma eraseCodesOf_spawn:
  "spawn (eraseCodesOf w c a opt) c' a' opt' =
     (if c' = c \<and> a' = a \<and> opt' = opt
      then (case spawn w c' a' opt' of
              SpawnThrows e \<Rightarrow> SpawnThrows e
            | Child evs \<Rightarrow> Child (map eraseCode evs))
      else spawn w c' a' opt')"
  by (simp add: eraseCodesOf_def)

lemma probe_erase:
  "a \<noteq> [''--version''] \<Longrightarrow>
   getAnchorCommandVersion (eraseCodesOf w c a opt) = getAnchorCommandVersion w"
  by (simp add: getAnchorCommandVersion_def eraseCodesOf_spawn)

lemma parseCargoToml_erase:
  "parseCargoToml (eraseCodesOf w c a opt) p = parseCargoToml w p"
  by (simp add: parseCargoToml_def eraseCodesOf_fields split: promise.splits sum.splits)

lemma manifest_erase:
  "getAnchorVersionInToml (eraseCodesOf w c a opt) p = getAnchorVersionInToml w p"
  by (simp add: getAnchorVersionInToml_def parseCargoToml_erase eraseCodesOf_fields
      split: prod.splits promise.splits option.splits)

lemma handleOn_erase_world:
  "handleOn (eraseCodesOf w c a opt) config pc ra b l st ev = handleOn w config pc ra b l st ev"
  by (cases st; cases ev)
     (simp_all add: handleOnExit_def Let_def eraseCodesOf_fields split: promise.splits)

lemma handleOn_eraseCode:
  "handleOn w config pc ra b l st (eraseCode ev) = handleOn w config pc ra b l st ev"
  by (cases st; cases ev) simp_all

lemma handle_fold_erase:
  "foldl (handleOn (eraseCodesOf w c a opt) config pc ra b l) st (map eraseCode evs) =
   foldl (handleOn w config pc ra b l) st evs"
  by (induction evs arbitrary: st) (simp_all add: handleOn_erase_world handleOn_eraseCode)

lemma handle_fold_eraseCode:
  "foldl (handleOn w config pc ra b l) st (map eraseCode evs) =
   foldl (handleOn w config pc ra b l) st evs"
  by (induction evs arbitrary: st) (simp_all add: handleOn_eraseCode)

lemma handle_fold_erase_world:
  "foldl (handleOn (eraseCodesOf w c a opt) config pc ra b l) st evs =
   foldl (handleOn w config pc ra b l) st evs"
  by (induction evs arbitrary: st) (simp_all add: handleOn_erase_world)

lemma handleAnchor_erase:
  "handleAnchor
     (eraseCodesOf w ''anchor'' [''build'', ''--idl'', idlDir config]
        \<lparr>cwd = Some (programDir config), stdio = None\<rparr>) config pc =
   handleAnchor w config pc"
proof -
  let ?w' = "eraseCodesOf w ''anchor'' [''build'', ''--idl'', idlDir config]
        \<lparr>cwd = Some (programDir config), stdio = None\<rparr>"
  have p: "getAnchorCommandVersion ?w' = getAnchorCommandVersion w"
    by (rule probe_erase) simp
  show ?thesis
    by (simp add: handleAnchor_def Let_def p manifest_erase eraseCodesOf_fields
        eraseCodesOf_spawn anchor_fold_eq_handle_fold handle_fold_erase
        split: prod.splits promise.splits spawn_result.splits)
qed

lemma handle_erase:
  "handle (eraseCodesOf w cmd spawnArgs spawnOpts) config rc spawnArgs spawnOpts pc ra =
   handle w config rc spawnArgs spawnOpts pc ra"
  by (simp add: handle_def Let_def eraseCodesOf_fields eraseCodesOf_spawn handle_fold_eraseCode
      handle_fold_erase_world split: prod.splits promise.splits option.splits spawn_result.splits)

text \<open>
  Claim C2. Let the spawned child emit no \<^verbatim>\<open>error\<close> and emit \<^verbatim>\<open>exit\<close> with any code and
  signal. When \<open>enhanceIdl\<close> and \<open>generateTypeScriptSDK\<close> are fulfilled, the promise of
  \<open>handleAnchor\<close> and that of \<open>handle\<close> are resolved, whatever the code; and the step
  of either \<^verbatim>\<open>exit\<close> listener on any code and signal is its step on code 0, in every
  state and with every behaviour of the collaborators. The code is not read by the
  orchestrators: for every world, \<open>handleAnchor\<close> and \<open>handle\<close> give the same actions
  and the same promise when the generation run exits and closes with code 0 and no signal
  instead of the codes and signals it had (the last two conjuncts, which need none of the
  hypotheses).
\<close>

theorem exit_code_ignored:
  assumes "\<not> list_ex is_ChildError evs" and "ChildExit code sg \<in> set evs"
  shows "(snd (getAnchorCommandVersion w) = Resolved v \<and>
          snd (getAnchorVersionInToml w (manifestOf w config)) = Resolved v \<and>
          anchorChild w config = Child evs \<and>
          enhanceIdl w config v v = Resolved i \<and>
          generateTypeScriptSDK w i (sdkDir config) pc (typeAliases config) (serializers config)
            (anchorRemainingAccounts config) = Resolved () \<longrightarrow>
            snd (handleAnchor w config pc) = Resolved ()) \<and>
         (rustbinMatch w rc = (confirms, Resolved m) \<and> binVersion m = Some binV \<and>
          spawn w (fullPathToBinary m) spawnArgs spawnOpts = Child evs \<and>
          enhanceIdl w config binV (libVersion m) = Resolved i \<and>
          generateTypeScriptSDK w i (sdkDir config) pc (typeAliases config) (serializers config)
            ra = Resolved () \<longrightarrow>
            snd (handle w config rc spawnArgs spawnOpts pc ra) = Resolved ()) \<and>
         anchorOn w config pc v v st (ChildExit code sg) =
           anchorOn w config pc v v st (ChildExit (Some 0) None) \<and>
         handleOn w config pc ra binV lv st (ChildExit code sg) =
           handleOn w config pc ra binV lv st (ChildExit (Some 0) None) \<and>
         handleAnchor
           (eraseCodesOf w ''anchor'' [''build'', ''--idl'', idlDir config]
              \<lparr>cwd = Some (programDir config), stdio = None\<rparr>) config pc =
           handleAnchor w config pc \<and>
         handle (eraseCodesOf w cmd spawnArgs spawnOpts) config rc spawnArgs spawnOpts pc ra =
           handle w config rc spawnArgs spawnOpts pc ra"
proof -
  from assms(2) have ex: "list_ex is_ChildExit evs"
    by (auto simp: list_ex_iff intro: bexI [of _ "ChildExit code sg"])
  show ?thesis
  proof (intro conjI impI)
    assume h: "snd (getAnchorCommandVersion w) = Resolved v \<and>
          snd (getAnchorVersionInToml w (manifestOf w config)) = Resolved v \<and>
          anchorChild w config = Child evs \<and>
          enhanceIdl w config v v = Resolved i \<and>
          generateTypeScriptSDK w i (sdkDir config) pc (typeAliases config) (serializers config)
            (anchorRemainingAccounts config) = Resolved ()"
    then have "handleAnchor w config pc =
           foldl (handleOn w config pc (anchorRemainingAccounts config) v v)
             ([probeSpawn] @ fst (getAnchorVersionInToml w (manifestOf w config)) @
                [anchorSpawn config], Pending) evs"
      using handleAnchor_unfold [of w v config evs pc] by blast
    moreover from h have "enhanceIdl w config v v = Resolved i"
      and "generateTypeScriptSDK w i (sdkDir config) pc (typeAliases config) (serializers config)
            (anchorRemainingAccounts config) = Resolved ()" by blast+
    ultimately show "snd (handleAnchor w config pc) = Resolved ()"
      using handle_fold_ok [OF _ _ assms(1) ex] by simp
  next
    assume h: "rustbinMatch w rc = (confirms, Resolved m) \<and> binVersion m = Some binV \<and>
          spawn w (fullPathToBinary m) spawnArgs spawnOpts = Child evs \<and>
          enhanceIdl w config binV (libVersion m) = Resolved i \<and>
          generateTypeScriptSDK w i (sdkDir config) pc (typeAliases config) (serializers config)
            ra = Resolved ()"
    then have "handle w config rc spawnArgs spawnOpts pc ra =
           foldl (handleOn w config pc ra binV (libVersion m))
             (concat (map (\<lambda>a. fst (confirmAutoMessageLog a)) confirms) @
                [Spawn (fullPathToBinary m) spawnArgs spawnOpts], Pending) evs"
      using handle_unfold [of w rc confirms m binV spawnArgs spawnOpts evs config pc ra] by blast
    moreover from h have "enhanceIdl w config binV (libVersion m) = Resolved i"
      and "generateTypeScriptSDK w i (sdkDir config) pc (typeAliases config) (serializers config)
            ra = Resolved ()" by blast+
    ultimately show "snd (handle w config rc spawnArgs spawnOpts pc ra) = Resolved ()"
      using handle_fold_ok [OF _ _ assms(1) ex] by simp
  next
    show "anchorOn w config pc v v st (ChildExit code sg) =
           anchorOn w config pc v v st (ChildExit (Some 0) None)"
      by (rule anchorOn_exit_code)
  next
    show "handleOn w config pc ra binV lv st (ChildExit code sg) =
           handleOn w config pc ra binV lv st (ChildExit (Some 0) None)"
      by (rule handleOn_exit_code)
  next
    show "handleAnchor
           (eraseCodesOf w ''anchor'' [''build'', ''--idl'', idlDir config]
              \<lparr>cwd = Some (programDir config), stdio = None\<rparr>) config pc =
           handleAnchor w config pc"
      by (rule handleAnchor_erase)
  next
    show "handle (eraseCodesOf w cmd spawnArgs spawnOpts) config rc spawnArgs spawnOpts pc ra =
           handle w config rc spawnArgs spawnOpts pc ra"
      by (rule handle_erase)
  qed
qed

lemma handleOnExit_calls:
  "filter is_Call (fst (handleOnExit w config pc ra b l (tr, p))) =
     filter is_Call tr @ exitCalls w config pc ra b l"
  by (simp add: handleOnExit_def exitCalls_def is_Call_def Let_def split: promise.splits)

lemma handleOn_calls:
  "filter is_Call (fst (handleOn w config pc ra b l (tr, p) ev)) =
     filter is_Call tr @ (if is_ChildExit ev then exitCalls w config pc ra b l else [])"
  by (cases ev) (simp_all add: handleOnExit_calls is_Call_def)

lemma handle_fold_calls:
  "filter is_Call (fst (foldl (handleOn w config pc ra b l) (tr, p) evs)) =
     filter is_Call tr @
     concat (map (\<lambda>ev. if is_ChildExit ev then exitCalls w config pc ra b l else []) evs)"
proof (induction evs arbitrary: tr p)
  case Nil
  show ?case by simp
next
  case (Cons ev evs)
  obtain tr' p' where st: "handleOn w config pc ra b l (tr, p) ev = (tr', p')"
    by (cases "handleOn w config pc ra b l (tr, p) ev")
  with handleOn_calls [of w config pc ra b l tr p ev]
  have "filter is_Call tr' =
          filter is_Call tr @ (if is_ChildExit ev then exitCalls w config pc ra b l else [])"
    by simp
  with Cons.IH [of tr' p'] st show ?case by simp
qed

lemma concat_one:
  "length (filter P xs) = 1 \<Longrightarrow> concat (map (\<lambda>x. if P x then ys else []) xs) = ys"
proof (induction xs)
  case Nil
  then show ?case by simp
next
  case (Cons x xs)
  show ?case
  proof (cases "P x")
    case True
    with Cons.prems have "filter P xs = []" by simp
    then have "concat (map (\<lambda>x. if P x then ys else []) xs) = []"
      by (induction xs) (auto split: if_splits)
    with True show ?thesis by simp
  next
    case False
    with Cons show ?thesis by simp
  qed
qed

lemma parseCargoToml_no_call: "filter is_Call (fst (parseCargoToml w path)) = []"
  by (simp add: parseCargoToml_def is_Call_def split: promise.splits sum.splits)

lemma getAnchorVersionInToml_no_call: "filter is_Call (fst (getAnchorVersionInToml w path)) = []"
  using parseCargoToml_no_call [of w path]
  by (cases "parseCargoToml w path")
     (auto simp: getAnchorVersionInToml_def split: promise.splits option.splits)

lemma confirms_no_call:
  "filter is_Call (concat (map (\<lambda>a. fst (confirmAutoMessageLog a)) confirms)) = []"
  by (induction confirms) (simp_all add: confirmAutoMessageLog_def is_Call_def split: option.splits)

text \<open>
  Claim C3. Let the spawned child emit \<^verbatim>\<open>exit\<close> exactly once, and let \<open>enhanceIdl\<close> be
  fulfilled with the IDL \<open>i\<close>. Then the calls that \<open>handleAnchor\<close> makes to the two
  collaborators are exactly one call of \<open>enhanceIdl\<close> with the configuration and the two
  versions, followed by exactly one call of \<open>generateTypeScriptSDK\<close> with \<open>i\<close>, the
  configuration's \<^verbatim>\<open>sdkDir\<close> as it is, and the other options of the configuration. The
  same holds for \<open>handle\<close> with the installed and the library version of the installer's
  result.
\<close>

theorem one_exit_calls:
  assumes "length (filter is_ChildExit evs) = 1"
  shows "(snd (getAnchorCommandVersion w) = Resolved v \<and>
          snd (getAnchorVersionInToml w (manifestOf w config)) = Resolved v \<and>
          anchorChild w config = Child evs \<and>
          enhanceIdl w config v v = Resolved i \<longrightarrow>
            filter is_Call (fst (handleAnchor w config pc)) =
              [CallEnhanceIdl config v v,
               CallGenerateTypeScriptSDK i (sdkDir config) pc (typeAliases config)
                 (serializers config) (anchorRemainingAccounts config)]) \<and>
         (rustbinMatch w rc = (confirms, Resolved m) \<and> binVersion m = Some binV \<and>
          spawn w (fullPathToBinary m) spawnArgs spawnOpts = Child evs \<and>
          enhanceIdl w config binV (libVersion m) = Resolved i \<longrightarrow>
            filter is_Call (fst (handle w config rc spawnArgs spawnOpts pc ra)) =
              [CallEnhanceIdl config binV (libVersion m),
               CallGenerateTypeScriptSDK i (sdkDir config) pc (typeAliases config)
                 (serializers config) ra])"
proof (intro conjI impI)
  assume h: "snd (getAnchorCommandVersion w) = Resolved v \<and>
          snd (getAnchorVersionInToml w (manifestOf w config)) = Resolved v \<and>
          anchorChild w config = Child evs \<and>
          enhanceIdl w config v v = Resolved i"
  then have u: "handleAnchor w config pc =
           foldl (handleOn w config pc (anchorRemainingAccounts config) v v)
             ([probeSpawn] @ fst (getAnchorVersionInToml w (manifestOf w config)) @
                [anchorSpawn config], Pending) evs"
    using handleAnchor_unfold [of w v config evs pc] by blast
  from h have e: "exitCalls w config pc (anchorRemainingAccounts config) v v =
              [CallEnhanceIdl config v v,
               CallGenerateTypeScriptSDK i (sdkDir config) pc (typeAliases config)
                 (serializers config) (anchorRemainingAccounts config)]"
    by (simp add: exitCalls_def)
  show "filter is_Call (fst (handleAnchor w config pc)) =
              [CallEnhanceIdl config v v,
               CallGenerateTypeScriptSDK i (sdkDir config) pc (typeAliases config)
                 (serializers config) (anchorRemainingAccounts config)]"
    unfolding u handle_fold_calls concat_one [OF assms] e
    by (simp add: getAnchorVersionInToml_no_call probeSpawn_def anchorSpawn_def is_Call_def)
next
  assume h: "rustbinMatch w rc = (confirms, Resolved m) \<and> binVersion m = Some binV \<and>
          spawn w (fullPathToBinary m) spawnArgs spawnOpts = Child evs \<and>
          enhanceIdl w config binV (libVersion m) = Resolved i"
  then have u: "handle w config rc spawnArgs spawnOpts pc ra =
           foldl (handleOn w config pc ra binV (libVersion m))
             (concat (map (\<lambda>a. fst (confirmAutoMessageLog a)) confirms) @
                [Spawn (fullPathToBinary m) spawnArgs spawnOpts], Pending) evs"
    using handle_unfold [of w rc confirms m binV spawnArgs spawnOpts evs config pc ra] by blast
  from h have e: "exitCalls w config pc ra binV (libVersion m) =
              [CallEnhanceIdl config binV (libVersion m),
               CallGenerateTypeScriptSDK i (sdkDir config) pc (typeAliases config)
                 (serializers config) ra]"
    by (simp add: exitCalls_def)
  show "filter is_Call (fst (handle w config rc spawnArgs spawnOpts pc ra)) =
              [CallEnhanceIdl config binV (libVersion m),
               CallGenerateTypeScriptSDK i (sdkDir config) pc (typeAliases config)
                 (serializers config) ra]"
    unfolding u handle_fold_calls concat_one [OF assms] e
    by (simp add: confirms_no_call is_Call_def)
qed

lemma handleOnExit_fails:
  assumes "downstreamFails w config pc ra b l e"
  shows "snd (handleOnExit w config pc ra b l (tr, p)) = p \<and>
         UnhandledRejection e \<in> set (fst (handleOnExit w config pc ra b l (tr, p)))"
  using assms
  by (auto simp: downstreamFails_def handleOnExit_def Let_def split: promise.splits)

lemma handleOn_trace_mono:
  "set tr \<subseteq> set (fst (handleOn w config pc ra b l (tr, p) ev))"
  by (cases ev) (auto simp: handleOnExit_def Let_def split: promise.splits)

lemma handle_fold_trace_mono:
  "set tr \<subseteq> set (fst (foldl (handleOn w config pc ra b l) (tr, p) evs))"
proof (induction evs arbitrary: tr p)
  case Nil
  show ?case by simp
next
  case (Cons ev evs)
  obtain tr' p' where st: "handleOn w config pc ra b l (tr, p) ev = (tr', p')"
    by (cases "handleOn w config pc ra b l (tr, p) ev")
  with handleOn_trace_mono [of tr w config pc ra b l p ev] have "set tr \<subseteq> set tr'" by simp
  with Cons.IH [of tr' p'] st show ?case by auto
qed

lemma handle_fold_fails:
  assumes "downstreamFails w config pc ra b l e"
  shows "\<not> list_ex is_ChildError evs \<Longrightarrow>
         snd (foldl (handleOn w config pc ra b l) (tr, p) evs) = p \<and>
         (list_ex is_ChildExit evs \<longrightarrow>
            UnhandledRejection e \<in> set (fst (foldl (handleOn w config pc ra b l) (tr, p) evs)))"
proof (induction evs arbitrary: tr)
  case Nil
  show ?case by simp
next
  case (Cons ev evs)
  show ?case
  proof (cases ev)
    case (ChildExit c s)
    obtain tr' p' where st: "handleOnExit w config pc ra b l (tr, p) = (tr', p')"
      by (cases "handleOnExit w config pc ra b l (tr, p)")
    with handleOnExit_fails [OF assms, of tr p]
    have p': "p' = p" and u: "UnhandledRejection e \<in> set tr'" by simp_all
    from u handle_fold_trace_mono [of tr' w config pc ra b l p evs]
    have "UnhandledRejection e \<in> set (fst (foldl (handleOn w config pc ra b l) (tr', p) evs))"
      by blast
    with Cons.IH [of tr'] Cons.prems st p' ChildExit show ?thesis by simp
  next
    case (ChildError x)
    with Cons.prems show ?thesis by simp
  next
    case (ChildClose c s)
    with Cons show ?thesis by simp
  next
    case (StdoutData d)
    with Cons show ?thesis by simp
  next
    case (StderrData d)
    with Cons show ?thesis by simp
  qed
qed

text \<open>
  Claim C10. Let the spawned child emit no \<^verbatim>\<open>error\<close> and emit \<^verbatim>\<open>exit\<close>, and let
  \<open>enhanceIdl\<close> or, after it, \<open>generateTypeScriptSDK\<close> be rejected with \<open>e\<close>. Then the
  promise of \<open>handleAnchor\<close>, and that of \<open>handle\<close>, is still pending when the child has
  emitted all its events: it is neither rejected nor resolved, and \<open>e\<close> is an
  unhandled rejection of the listener's own promise.
\<close>

theorem downstream_failure_never_settles:
  assumes "\<not> list_ex is_ChildError evs" and "list_ex is_ChildExit evs"
  shows "(snd (getAnchorCommandVersion w) = Resolved v \<and>
          snd (getAnchorVersionInToml w (manifestOf w config)) = Resolved v \<and>
          anchorChild w config = Child evs \<and>
          downstreamFails w config pc (anchorRemainingAccounts config) v v e \<longrightarrow>
            snd (handleAnchor w config pc) = Pending \<and>
            UnhandledRejection e \<in> set (fst (handleAnchor w config pc))) \<and>
         (rustbinMatch w rc = (confirms, Resolved m) \<and> binVersion m = Some binV \<and>
          spawn w (fullPathToBinary m) spawnArgs spawnOpts = Child evs \<and>
          downstreamFails w config pc ra binV (libVersion m) e \<longrightarrow>
            snd (handle w config rc spawnArgs spawnOpts pc ra) = Pending \<and>
            UnhandledRejection e \<in> set (fst (handle w config rc spawnArgs spawnOpts pc ra)))"
proof (intro conjI impI)
  assume h: "snd (getAnchorCommandVersion w) = Resolved v \<and>
          snd (getAnchorVersionInToml w (manifestOf w config)) = Resolved v \<and>
          anchorChild w config = Child evs \<and>
          downstreamFails w config pc (anchorRemainingAccounts config) v v e"
  then have u: "handleAnchor w config pc =
           foldl (handleOn w config pc (anchorRemainingAccounts config) v v)
             ([probeSpawn] @ fst (getAnchorVersionInToml w (manifestOf w config)) @
                [anchorSpawn config], Pending) evs"
    using handleAnchor_unfold [of w v config evs pc] by blast
  from h have d: "downstreamFails w config pc (anchorRemainingAccounts config) v v e" by blast
  from handle_fold_fails [OF d assms(1)] assms(2)
  show "snd (handleAnchor w config pc) = Pending"
    and "UnhandledRejection e \<in> set (fst (handleAnchor w config pc))"
    unfolding u by blast+
next
  assume h: "rustbinMatch w rc = (confirms, Resolved m) \<and> binVersion m = Some binV \<and>
          spawn w (fullPathToBinary m) spawnArgs spawnOpts = Child evs \<and>
          downstreamFails w config pc ra binV (libVersion m) e"
  then have u: "handle w config rc spawnArgs spawnOpts pc ra =
           foldl (handleOn w config pc ra binV (libVersion m))
             (concat (map (\<lambda>a. fst (confirmAutoMessageLog a)) confirms) @
                [Spawn (fullPathToBinary m) spawnArgs spawnOpts], Pending) evs"
    using handle_unfold [of w rc confirms m binV spawnArgs spawnOpts evs config pc ra] by blast
  from h have d: "downstreamFails w config pc ra binV (libVersion m) e" by blast
  from handle_fold_fails [OF d assms(1)] assms(2)
  show "snd (handle w config rc spawnArgs spawnOpts pc ra) = Pending"
    and "UnhandledRejection e \<in> set (fst (handle w config rc spawnArgs spawnOpts pc ra))"
    unfolding u by blast+
qed

lemma probe_error_first:
  "snd (foldl probeOn ('''', Pending) (ChildError err # rest)) =
     Rejected (if isENOENT err then JStr ''Anchor is not installed!'' else JErr err)"
proof -
  have "probeOn ('''', Pending) (ChildError err) =
          ('''', Rejected (if isENOENT err then JStr ''Anchor is not installed!'' else JErr err))"
    by (simp add: isENOENT_def reject_def)
  then show ?thesis
    using probe_fold_settled [of "Rejected (if isENOENT err then JStr ''Anchor is not installed!'' else JErr err)" "''''" rest]
    by simp
qed

lemma handle_error_first:
  "snd (foldl (handleOn w config pc ra b l) (tr, Pending) (ChildError err # rest)) =
     Rejected (JErr err)"
  using handle_fold_settled [of "Rejected (JErr err)" w config pc ra b l _ rest]
  by (simp add: reject_def)

text \<open>
  Claim C7. Let the first event of the child be \<^verbatim>\<open>error\<close> with the error \<open>err\<close>. The
  probe is rejected with the string \<^verbatim>\<open>'Anchor is not installed!'\<close> when \<open>err\<close> is Node's
  error for a missing executable (\<open>isENOENT\<close>), and with \<open>err\<close> itself otherwise;
  \<open>handleAnchor\<close> and \<open>handle\<close> are rejected with \<open>err\<close> itself. In all three the
  rejection tells a missing executable from another failure of the spawn:
  \<open>saysNotInstalled\<close> holds of the rejection exactly when the executable was missing.
\<close>

theorem missing_executable_distinguishable:
  "(probeChild w = Child (ChildError err # rest) \<longrightarrow>
      snd (getAnchorCommandVersion w) =
        Rejected (if isENOENT err then JStr ''Anchor is not installed!'' else JErr err)) \<and>
   (snd (getAnchorCommandVersion w) = Resolved v \<and>
    snd (getAnchorVersionInToml w (manifestOf w config)) = Resolved v \<and>
    anchorChild w config = Child (ChildError err # rest) \<longrightarrow>
      snd (handleAnchor w config pc) = Rejected (JErr err)) \<and>
   (rustbinMatch w rc = (confirms, Resolved m) \<and> binVersion m = Some binV \<and>
    spawn w (fullPathToBinary m) spawnArgs spawnOpts = Child (ChildError err # rest) \<longrightarrow>
      snd (handle w config rc spawnArgs spawnOpts pc ra) = Rejected (JErr err)) \<and>
   saysNotInstalled (if isENOENT err then JStr ''Anchor is not installed!'' else JErr err) =
     isENOENT err \<and>
   saysNotInstalled (JErr err) = isENOENT err"
proof (intro conjI impI)
  assume a: "probeChild w = Child (ChildError err # rest)"
  show "snd (getAnchorCommandVersion w) =
        Rejected (if isENOENT err then JStr ''Anchor is not installed!'' else JErr err)"
    unfolding probe_unfold [OF a] by (rule probe_error_first)
next
  assume "snd (getAnchorCommandVersion w) = Resolved v \<and>
    snd (getAnchorVersionInToml w (manifestOf w config)) = Resolved v \<and>
    anchorChild w config = Child (ChildError err # rest)"
  then have "handleAnchor w config pc =
           foldl (handleOn w config pc (anchorRemainingAccounts config) v v)
             ([probeSpawn] @ fst (getAnchorVersionInToml w (manifestOf w config)) @
                [anchorSpawn config], Pending) (ChildError err # rest)"
    using handleAnchor_unfold [of w v config "ChildError err # rest" pc] by blast
  then show "snd (handleAnchor w config pc) = Rejected (JErr err)"
    by (simp only: handle_error_first)
next
  assume "rustbinMatch w rc = (confirms, Resolved m) \<and> binVersion m = Some binV \<and>
    spawn w (fullPathToBinary m) spawnArgs spawnOpts = Child (ChildError err # rest)"
  then have "handle w config rc spawnArgs spawnOpts pc ra =
           foldl (handleOn w config pc ra binV (libVersion m))
             (concat (map (\<lambda>a. fst (confirmAutoMessageLog a)) confirms) @
                [Spawn (fullPathToBinary m) spawnArgs spawnOpts], Pending) (ChildError err # rest)"
    using handle_unfold [of w rc confirms m binV spawnArgs spawnOpts "ChildError err # rest" config pc ra]
    by blast
  then show "snd (handle w config rc spawnArgs spawnOpts pc ra) = Rejected (JErr err)"
    by (simp only: handle_error_first)
next
  show "saysNotInstalled (if isENOENT err then JStr ''Anchor is not installed!'' else JErr err) =
     isENOENT err"
    by (simp add: saysNotInstalled_def)
next
  show "saysNotInstalled (JErr err) = isENOENT err"
    by (simp add: saysNotInstalled_def)
qed

lemma handleShank_example:
  "handleShank w exampleConfig pc =
     handle w exampleConfig (shankConfig w) shankArgs shankOpts pc (Some False)"
  by (simp add: handleShank_def shankConfig_def shankArgs_def shankOpts_def Let_def)

lemma example_probe:
  "snd (getAnchorCommandVersion (exampleWorld probeOk idl dep enh gen rb)) = Resolved ''0.27.0''"
  by (simp add: getAnchorCommandVersion_def exampleWorld_def probeOk_def matcher_eval resolve_def)

lemma example_manifest:
  "snd (getAnchorVersionInToml (exampleWorld pr idl (Some (DepString v)) enh gen rb)
          (manifestOf (exampleWorld pr idl (Some (DepString v)) enh gen rb) config)) = Resolved v"
  by (simp add: getAnchorVersionInToml_def parseCargoToml_def exampleWorld_def)

lemma example_anchorChild:
  "anchorChild (exampleWorld pr idl dep enh gen rb) config = Child idl"
  by (simp add: anchorChild_def exampleWorld_def)

lemma example_shankChild:
  "spawn (exampleWorld pr idl dep enh gen rb) (fullPathToBinary shankMatch) shankArgs shankOpts
     = Child idl"
  by (simp add: exampleWorld_def shankArgs_def)

lemma example_rustbin:
  "rustbinMatch (exampleWorld pr idl dep enh gen rb) rc = ([], rb)"
  by (simp add: exampleWorld_def)

lemma example_collab:
  "enhanceIdl (exampleWorld pr idl dep enh gen rb) c b l = enh"
  "generateTypeScriptSDK (exampleWorld pr idl dep enh gen rb) i d p t s r = gen"
  by (simp_all add: exampleWorld_def)

theorem handleAnchor_version_check_witness:
  "snd (handleAnchor (exampleWorld probeOk idlExit1 (Some (DepString ''0.26.0''))
                        Pending Pending Pending) exampleConfig None) =
     Rejected (JErr \<lparr>name = ''Error'',
        message = ''Anchor version mismatch! Selected anchor cli: 0.27.0, in Cargo.toml: 0.26.0''\<rparr>) \<and>
   filter is_Spawn (fst (handleAnchor (exampleWorld probeOk idlExit1 (Some (DepString ''0.26.0''))
                        Pending Pending Pending) exampleConfig None)) = [probeSpawn] \<and>
   filter is_Spawn (fst (handleAnchor (exampleWorld probeOk idlExit1 (Some (DepString ''0.27.0''))
                        Pending Pending Pending) exampleConfig None)) =
     [probeSpawn, anchorSpawn exampleConfig]"
proof -
  let ?w = "exampleWorld probeOk idlExit1 (Some (DepString ''0.26.0'')) Pending Pending Pending"
  let ?w' = "exampleWorld probeOk idlExit1 (Some (DepString ''0.27.0'')) Pending Pending Pending"
  from handleAnchor_version_check [of ?w "''0.27.0''" exampleConfig "''0.26.0''" None,
      OF example_probe example_manifest]
    handleAnchor_version_check [of ?w' "''0.27.0''" exampleConfig "''0.27.0''" None,
      OF example_probe example_manifest]
  show ?thesis by simp
qed

theorem exit_code_ignored_witness:
  "snd (handleAnchor (exampleWorld probeOk idlExit1 (Some (DepString ''0.27.0''))
                        (Resolved (Idl ''{}'')) (Resolved ()) (Resolved shankMatch))
          exampleConfig None) = Resolved () \<and>
   snd (handleShank (exampleWorld probeOk idlExit1 (Some (DepString ''0.27.0''))
                        (Resolved (Idl ''{}'')) (Resolved ()) (Resolved shankMatch))
          exampleConfig None) = Resolved () \<and>
   anchorChild
     (eraseCodesOf (exampleWorld probeOk idlExit1 (Some (DepString ''0.27.0''))
                      (Resolved (Idl ''{}'')) (Resolved ()) (Resolved shankMatch))
        ''anchor'' [''build'', ''--idl'', idlDir exampleConfig]
        \<lparr>cwd = Some (programDir exampleConfig), stdio = None\<rparr>) exampleConfig =
     Child [StdoutData ''building'', ChildExit (Some 0) None, ChildClose (Some 0) None] \<and>
   handleAnchor
     (eraseCodesOf (exampleWorld probeOk idlExit1 (Some (DepString ''0.27.0''))
                      (Resolved (Idl ''{}'')) (Resolved ()) (Resolved shankMatch))
        ''anchor'' [''build'', ''--idl'', idlDir exampleConfig]
        \<lparr>cwd = Some (programDir exampleConfig), stdio = None\<rparr>) exampleConfig None =
     handleAnchor (exampleWorld probeOk idlExit1 (Some (DepString ''0.27.0''))
                      (Resolved (Idl ''{}'')) (Resolved ()) (Resolved shankMatch))
       exampleConfig None \<and>
   handleShank
     (eraseCodesOf (exampleWorld probeOk idlExit1 (Some (DepString ''0.27.0''))
                      (Resolved (Idl ''{}'')) (Resolved ()) (Resolved shankMatch))
        ''bin/shank'' shankArgs shankOpts) exampleConfig None =
     handleShank (exampleWorld probeOk idlExit1 (Some (DepString ''0.27.0''))
                      (Resolved (Idl ''{}'')) (Resolved ()) (Resolved shankMatch))
       exampleConfig None"
proof -
  let ?w = "exampleWorld probeOk idlExit1 (Some (DepString ''0.27.0''))
              (Resolved (Idl ''{}'')) (Resolved ()) (Resolved shankMatch)"
  have 1: "\<not> list_ex is_ChildError idlExit1" and 2: "ChildExit (Some 1) None \<in> set idlExit1"
    by (simp_all add: idlExit1_def)
  have b: "binVersion shankMatch = Some ''0.4.2''" and l: "libVersion shankMatch = ''0.4.2''"
    by (simp_all add: shankMatch_def)
  have c: "anchorChild
     (eraseCodesOf ?w ''anchor'' [''build'', ''--idl'', idlDir exampleConfig]
        \<lparr>cwd = Some (programDir exampleConfig), stdio = None\<rparr>) exampleConfig =
     Child [StdoutData ''building'', ChildExit (Some 0) None, ChildClose (Some 0) None]"
    by (simp add: anchorChild_def eraseCodesOf_spawn exampleWorld_def idlExit1_def)
  have s: "shankConfig (eraseCodesOf ?w ''bin/shank'' shankArgs shankOpts) = shankConfig ?w"
    by (simp add: shankConfig_def eraseCodesOf_fields)
  from exit_code_ignored [OF 1 2, where w = ?w and v = "''0.27.0''" and config = exampleConfig
      and i = "Idl ''{}''" and pc = None and rc = "shankConfig ?w" and confirms = "[]"
      and m = shankMatch and binV = "''0.4.2''" and spawnArgs = shankArgs
      and spawnOpts = shankOpts and ra = "Some False" and cmd = "''bin/shank''"]
  show ?thesis
    by (simp add: example_probe example_manifest example_anchorChild example_shankChild
        example_rustbin example_collab handleShank_example b l c s)
qed

theorem one_exit_calls_witness:
  "filter is_Call (fst (handleAnchor (exampleWorld probeOk idlExit1 (Some (DepString ''0.27.0''))
                        (Resolved (Idl ''{}'')) (Resolved ()) (Resolved shankMatch))
          exampleConfig None)) =
     [CallEnhanceIdl exampleConfig ''0.27.0'' ''0.27.0'',
      CallGenerateTypeScriptSDK (Idl ''{}'') ''sdk'' None None None None] \<and>
   filter is_Call (fst (handleShank (exampleWorld probeOk idlExit1 (Some (DepString ''0.27.0''))
                        (Resolved (Idl ''{}'')) (Resolved ()) (Resolved shankMatch))
          exampleConfig None)) =
     [CallEnhanceIdl exampleConfig ''0.4.2'' ''0.4.2'',
      CallGenerateTypeScriptSDK (Idl ''{}'') ''sdk'' None None None (Some False)]"
proof -
  let ?w = "exampleWorld probeOk idlExit1 (Some (DepString ''0.27.0''))
              (Resolved (Idl ''{}'')) (Resolved ()) (Resolved shankMatch)"
  have 1: "length (filter is_ChildExit idlExit1) = 1"
    by (simp add: idlExit1_def)
  have b: "binVersion shankMatch = Some ''0.4.2''" and l: "libVersion shankMatch = ''0.4.2''"
    by (simp_all add: shankMatch_def)
  have c: "sdkDir exampleConfig = ''sdk''" "typeAliases exampleConfig = None"
    "serializers exampleConfig = None" "anchorRemainingAccounts exampleConfig = None"
    by (simp_all add: exampleConfig_def)
  from one_exit_calls [OF 1, where w = ?w and v = "''0.27.0''" and config = exampleConfig
      and i = "Idl ''{}''" and pc = None and rc = "shankConfig ?w" and confirms = "[]"
      and m = shankMatch and binV = "''0.4.2''" and spawnArgs = shankArgs
      and spawnOpts = shankOpts and ra = "Some False"]
  show ?thesis
    by (simp add: example_probe example_manifest example_anchorChild example_shankChild
        example_rustbin example_collab handleShank_example b l c)
qed

theorem downstream_failure_never_settles_witness:
  "snd (handleAnchor (exampleWorld probeOk idlExit1 (Some (DepString ''0.27.0''))
                        (Rejected (JStr ''no idl'')) (Resolved ()) (Resolved shankMatch))
          exampleConfig None) = Pending \<and>
   snd (handleShank (exampleWorld probeOk idlExit1 (Some (DepString ''0.27.0''))
                        (Resolved (Idl ''{}'')) (Rejected (JStr ''no sdk'')) (Resolved shankMatch))
          exampleConfig None) = Pending"
proof -
  let ?w = "exampleWorld probeOk idlExit1 (Some (DepString ''0.27.0''))
              (Rejected (JStr ''no idl'')) (Resolved ()) (Resolved shankMatch)"
  let ?w' = "exampleWorld probeOk idlExit1 (Some (DepString ''0.27.0''))
              (Resolved (Idl ''{}'')) (Rejected (JStr ''no sdk'')) (Resolved shankMatch)"
  have 1: "\<not> list_ex is_ChildError idlExit1" and 2: "list_ex is_ChildExit idlExit1"
    by (simp_all add: idlExit1_def)
  have b: "binVersion shankMatch = Some ''0.4.2''"
    by (simp add: shankMatch_def)
  have d: "downstreamFails ?w exampleConfig None (anchorRemainingAccounts exampleConfig)
             ''0.27.0'' ''0.27.0'' (JStr ''no idl'')"
    and d': "downstreamFails ?w' exampleConfig None (Some False) ''0.4.2'' (libVersion shankMatch)
             (JStr ''no sdk'')"
    by (simp_all add: downstreamFails_def example_collab)
  from downstream_failure_never_settles [OF 1 2, where w = ?w and v = "''0.27.0''"
      and config = exampleConfig and pc = None and e = "JStr ''no idl''"]
    downstream_failure_never_settles [OF 1 2, where w = ?w' and config = exampleConfig
      and pc = None and e = "JStr ''no sdk''" and rc = "shankConfig ?w'" and confirms = "[]"
      and m = shankMatch and binV = "''0.4.2''" and spawnArgs = shankArgs
      and spawnOpts = shankOpts and ra = "Some False"]
  show ?thesis
    by (simp add: example_probe example_manifest example_anchorChild example_shankChild
        example_rustbin handleShank_example b d d')
qed

lemma example_isENOENT: "isENOENT spawnENOENT" "\<not> isENOENT spawnEACCES"
  by (simp_all add: isENOENT_def spawnENOENT_def spawnEACCES_def str_includes_def sublist_Cons_right)

theorem missing_executable_distinguishable_witness:
  "snd (getAnchorCommandVersion
          (exampleWorld [ChildError spawnENOENT, ChildClose (Some (- 2)) None] [] None
             Pending Pending Pending)) = Rejected (JStr ''Anchor is not installed!'') \<and>
   snd (getAnchorCommandVersion
          (exampleWorld [ChildError spawnEACCES, ChildClose (Some (- 13)) None] [] None
             Pending Pending Pending)) = Rejected (JErr spawnEACCES) \<and>
   snd (handleAnchor
          (exampleWorld probeOk [ChildError spawnENOENT, ChildClose (Some (- 2)) None]
             (Some (DepString ''0.27.0'')) Pending Pending (Resolved shankMatch))
          exampleConfig None) = Rejected (JErr spawnENOENT) \<and>
   snd (handleShank
          (exampleWorld probeOk [ChildError spawnENOENT, ChildClose (Some (- 2)) None]
             (Some (DepString ''0.27.0'')) Pending Pending (Resolved shankMatch))
          exampleConfig None) = Rejected (JErr spawnENOENT) \<and>
   saysNotInstalled (JStr ''Anchor is not installed!'') \<and>
   saysNotInstalled (JErr spawnENOENT) \<and>
   \<not> saysNotInstalled (JErr spawnEACCES)"
proof -
  let ?w1 = "exampleWorld [ChildError spawnENOENT, ChildClose (Some (- 2)) None] [] None
             Pending Pending Pending"
  let ?w2 = "exampleWorld [ChildError spawnEACCES, ChildClose (Some (- 13)) None] [] None
             Pending Pending Pending"
  let ?w3 = "exampleWorld probeOk [ChildError spawnENOENT, ChildClose (Some (- 2)) None]
             (Some (DepString ''0.27.0'')) Pending Pending (Resolved shankMatch)"
  have p: "probeChild (exampleWorld pr idl dep enh gen rb) = Child pr" for pr idl dep enh gen rb
    by (simp add: probeChild_def exampleWorld_def)
  have b: "binVersion shankMatch = Some ''0.4.2''"
    by (simp add: shankMatch_def)
  from missing_executable_distinguishable [where w = ?w1 and err = spawnENOENT
      and rest = "[ChildClose (Some (- 2)) None]"]
    missing_executable_distinguishable [where w = ?w2 and err = spawnEACCES
      and rest = "[ChildClose (Some (- 13)) None]"]
    missing_executable_distinguishable [where w = ?w3 and err = spawnENOENT
      and rest = "[ChildClose (Some (- 2)) None]" and v = "''0.27.0''" and config = exampleConfig
      and pc = None and rc = "shankConfig ?w3" and confirms = "[]"
      and m = shankMatch and binV = "''0.4.2''" and spawnArgs = shankArgs
      and spawnOpts = shankOpts and ra = "Some False"]
  show ?thesis
    by (simp add: p example_isENOENT example_probe example_manifest example_anchorChild
        example_shankChild example_rustbin handleShank_example b)
qed


end
